theory Spec2Isabelle
  imports Main "HOL-Library.Word" "HOL-Library.Sublist"
begin

section \<open>Values, interpreter state and outcomes\<close>

text \<open>
  The protected-operation library (\<^verbatim>\<open>src/cbits/safe.c\<close>) is written against the C API of
  Lua 5.3 (\<^verbatim>\<open>lua.h\<close>, \<^verbatim>\<open>lauxlib.h\<close>), which the repository does not contain. The data
  model below is the part of that API the wrappers touch: tagged values, the value stack of
  the running C function, its upvalues, the registry, and the native memory the output
  parameters point to. Machine types: \<^verbatim>\<open>lua_Integer\<close> and \<^verbatim>\<open>size_t\<close> are 64 bits wide (the
  conversion between them keeps the bits); a C \<^verbatim>\<open>int\<close> is an \<open>int\<close>, since the wrappers do no
  arithmetic on it beyond stack offsets, which stay far below \<open>2^31\<close>. The stack is a list
  without a size limit: reserving stack space (\<^verbatim>\<open>lua_checkstack\<close>) is left to the caller by
  the wrappers and is not part of the model.
\<close>

type_synonym addr = nat
type_synonym lua_Integer = "64 word"
type_synonym size_t = "64 word"

text \<open>
  A C function pointer. The auxiliary closures of \<^verbatim>\<open>safe.c\<close> are named; \<open>Extern\<close> is any
  other C function, \<open>NullFn\<close> the null pointer.
\<close>

datatype cfun =
    NullFn
  | S_newtable | S_len | S_geti | S_gettable | S_newthread | S_newuserdata | S_next
  | S_pushcclosure | S_pushlstring | S_pushstring | S_rawset | S_settable | S_tostring
  | S_call_rust
  | Extern addr

datatype val =
    Nil
  | Boolean bool
  | Integer lua_Integer
  | Float "64 word"
  | Str string
  | LightUserdata addr
  | Userdata addr
  | CFunction cfun
  | CClosure cfun "val list"
  | LuaFunction nat
  | Table nat
  | Thread addr

text \<open>What a native output parameter can hold.\<close>

datatype cval =
    CInteger lua_Integer
  | CInt int
  | CPtr addr
  | CStr "string option"

text \<open>
  \<open>stack\<close> is the stack of the running function, bottom first, so that the absolute index
  \<open>i\<close> is \<open>stack ! (i - 1)\<close> and the top is the last element. \<open>addressed\<close> is a history
  variable: the index arguments with which \<^verbatim>\<open>lua_pushvalue\<close> and \<^verbatim>\<open>lua_replace\<close> were
  entered, in call order. No operation reads it.
\<close>

record 'h lua_State =
  stack :: "val list"
  upvalues :: "val list"
  registry :: val
  heap :: 'h
  mem :: "addr \<Rightarrow> cval option"
  addressed :: "int list"

datatype errcode = ERRRUN | ERRMEM | ERRGCMM | ERRERR

text \<open>
  The outcome of an API call or of a C function body: \<open>Undefined\<close> when a precondition of
  the API is violated (undefined behaviour in C), \<open>Throw\<close> when the engine raises (the
  non-local transfer to the enclosing protected call), \<open>Done\<close> for a normal return.
\<close>

datatype ('a, 'h) res =
    Undefined
  | Throw errcode val "'h lua_State"
  | Done 'a "'h lua_State"

definition andthen :: "('a, 'h) res \<Rightarrow> ('a \<Rightarrow> 'h lua_State \<Rightarrow> ('b, 'h) res) \<Rightarrow> ('b, 'h) res" where
  "andthen m f = (case m of Undefined \<Rightarrow> Undefined | Throw c v s \<Rightarrow> Throw c v s | Done a s \<Rightarrow> f a s)"

text \<open>
  Modelled from the spec: the raw primitive surface is an external collaborator (the Lua
  engine), absent from the sources. The primitives that can raise (marked \<open>m\<close> or \<open>e\<close> in
  the Lua 5.3 reference manual) are parameters: each maps the engine's heap to either a
  raised error (code and error value) or a result, and a new heap. \<open>host\<close> is the table of
  host callbacks by address (a callback returns its integer result code and the state it
  left); \<open>e_extern\<close> and \<open>e_call\<close> run C functions and callable values that are not the
  library's own. \<open>e_where\<close> is the position text of the function at a level of the engine's
  call stack (level 1 is the caller of the running function): \<^verbatim>\<open>chunk:line: \<close> when that
  function is a Lua function with line information, empty otherwise. The call stack is the
  engine's own, so the text is a parameter too.
\<close>

type_synonym raised = "errcode \<times> val"

record 'h engine =
  e_newtable :: "'h \<Rightarrow> (raised + nat) \<times> 'h"
  e_len :: "val \<Rightarrow> 'h \<Rightarrow> (raised + lua_Integer) \<times> 'h"
  e_gettable :: "val \<Rightarrow> val \<Rightarrow> 'h \<Rightarrow> (raised + val) \<times> 'h"
  e_newthread :: "'h \<Rightarrow> (raised + addr) \<times> 'h"
  e_newuserdata :: "size_t \<Rightarrow> 'h \<Rightarrow> (raised + addr) \<times> 'h"
  e_next :: "nat \<Rightarrow> val \<Rightarrow> 'h \<Rightarrow> (raised + (val \<times> val) option) \<times> 'h"
  e_newcclosure :: "'h \<Rightarrow> (raised + unit) \<times> 'h"
  e_pushlstring :: "addr \<Rightarrow> size_t \<Rightarrow> 'h \<Rightarrow> (raised + val) \<times> 'h"
  e_pushstring :: "addr \<Rightarrow> 'h \<Rightarrow> (raised + val) \<times> 'h"
  e_rawset :: "nat \<Rightarrow> val \<Rightarrow> val \<Rightarrow> 'h \<Rightarrow> (raised + unit) \<times> 'h"
  e_settable :: "val \<Rightarrow> val \<Rightarrow> val \<Rightarrow> 'h \<Rightarrow> (raised + unit) \<times> 'h"
  e_tostring :: "val \<Rightarrow> 'h \<Rightarrow> (raised + string) \<times> 'h"
  e_tointeger :: "val \<Rightarrow> lua_Integer"
  e_where :: "'h lua_State \<Rightarrow> int \<Rightarrow> string"
  host :: "addr \<Rightarrow> 'h lua_State \<Rightarrow> int \<times> 'h lua_State"
  e_extern :: "addr \<Rightarrow> 'h lua_State \<Rightarrow> (int, 'h) res"
  e_call :: "val \<Rightarrow> 'h lua_State \<Rightarrow> (int, 'h) res"

definition engine_call :: "'h lua_State \<Rightarrow> (raised + 'a) \<times> 'h \<Rightarrow> ('a, 'h) res" where
  "engine_call s r =
     (case r of
        (Inl (c, v), h) \<Rightarrow> Throw c v (s\<lparr>heap := h\<rparr>)
      | (Inr a, h) \<Rightarrow> Done a (s\<lparr>heap := h\<rparr>))"

section \<open>Constants of the Lua 5.3 API\<close>

definition LUA_OK :: int where "LUA_OK = 0"
definition LUA_MULTRET :: int where "LUA_MULTRET = - 1"
definition LUAI_MAXSTACK :: int where "LUAI_MAXSTACK = 1000000"
definition LUA_REGISTRYINDEX :: int where "LUA_REGISTRYINDEX = - LUAI_MAXSTACK - 1000"
definition MAXUPVAL :: int where "MAXUPVAL = 255"

definition lua_upvalueindex :: "int \<Rightarrow> int" where
  "lua_upvalueindex i = LUA_REGISTRYINDEX - i"

definition ispseudo :: "int \<Rightarrow> bool" where
  "ispseudo i = (i \<le> LUA_REGISTRYINDEX)"

fun status_of :: "errcode \<Rightarrow> int" where
  "status_of ERRRUN = 2"
| "status_of ERRMEM = 4"
| "status_of ERRGCMM = 5"
| "status_of ERRERR = 6"

text \<open>\<^verbatim>\<open>seterrorobj\<close>: the value a protected call leaves for a raise of the given code.\<close>

fun errobj :: "errcode \<Rightarrow> val \<Rightarrow> val" where
  "errobj ERRMEM v = Str ''not enough memory''"
| "errobj ERRERR v = Str ''error in error handling''"
| "errobj c v = v"

section \<open>Stack primitives (no raise: marked \<open>-\<close> in the reference manual)\<close>

definition lua_gettop :: "'h lua_State \<Rightarrow> int" where
  "lua_gettop s = int (length (stack s))"

definition lua_absindex :: "'h lua_State \<Rightarrow> int \<Rightarrow> int" where
  "lua_absindex s idx = (if 0 < idx \<or> ispseudo idx then idx else lua_gettop s + idx + 1)"

text \<open>The position in \<open>stack\<close> of a valid stack index (positive or relative to the top).\<close>

definition stackpos :: "'h lua_State \<Rightarrow> int \<Rightarrow> nat option" where
  "stackpos s idx =
     (if 0 < idx \<and> idx \<le> lua_gettop s then Some (nat (idx - 1))
      else if idx < 0 \<and> \<not> ispseudo idx \<and> - idx \<le> lua_gettop s then Some (nat (lua_gettop s + idx))
      else None)"

text \<open>
  \<^verbatim>\<open>index2addr\<close>, read side: the value an index denotes. A positive index above the top and
  an upvalue index above the function's upvalue count are acceptable and read as nil; zero
  and a relative index below the frame are undefined.
\<close>

definition index2addr :: "'h lua_State \<Rightarrow> int \<Rightarrow> val option" where
  "index2addr s idx =
     (if 0 < idx then (if idx \<le> lua_gettop s then Some (stack s ! nat (idx - 1)) else Some Nil)
      else if \<not> ispseudo idx then
        (if idx \<noteq> 0 \<and> - idx \<le> lua_gettop s then Some (stack s ! nat (lua_gettop s + idx)) else None)
      else if idx = LUA_REGISTRYINDEX then Some (registry s)
      else (let i = LUA_REGISTRYINDEX - idx in
            if i \<le> MAXUPVAL + 1
            then (if i \<le> int (length (upvalues s)) then Some (upvalues s ! nat (i - 1)) else Some Nil)
            else None))"

text \<open>Write side: only a valid index (a stack slot, the registry, an existing upvalue).\<close>

definition setslot :: "'h lua_State \<Rightarrow> int \<Rightarrow> val \<Rightarrow> (unit, 'h) res" where
  "setslot s idx v =
     (case stackpos s idx of
        Some p \<Rightarrow> Done () (s\<lparr>stack := (stack s)[p := v]\<rparr>)
      | None \<Rightarrow>
          if idx = LUA_REGISTRYINDEX then Done () (s\<lparr>registry := v\<rparr>)
          else if ispseudo idx \<and> LUA_REGISTRYINDEX - idx \<le> int (length (upvalues s))
          then Done () (s\<lparr>upvalues := (upvalues s)[nat (LUA_REGISTRYINDEX - idx - 1) := v]\<rparr>)
          else Undefined)"

definition push :: "'h lua_State \<Rightarrow> val \<Rightarrow> (unit, 'h) res" where
  "push s v = Done () (s\<lparr>stack := stack s @ [v]\<rparr>)"

definition lua_pushcfunction :: "'h lua_State \<Rightarrow> cfun \<Rightarrow> (unit, 'h) res" where
  "lua_pushcfunction s f = push s (CFunction f)"

definition lua_pushinteger :: "'h lua_State \<Rightarrow> lua_Integer \<Rightarrow> (unit, 'h) res" where
  "lua_pushinteger s n = push s (Integer n)"

definition lua_pushlightuserdata :: "'h lua_State \<Rightarrow> addr \<Rightarrow> (unit, 'h) res" where
  "lua_pushlightuserdata s p = push s (LightUserdata p)"

definition lua_pushvalue :: "'h lua_State \<Rightarrow> int \<Rightarrow> (unit, 'h) res" where
  "lua_pushvalue s idx =
     (case index2addr s idx of
        None \<Rightarrow> Undefined
      | Some v \<Rightarrow> push (s\<lparr>addressed := addressed s @ [idx]\<rparr>) v)"

definition lua_settop :: "'h lua_State \<Rightarrow> int \<Rightarrow> (unit, 'h) res" where
  "lua_settop s idx =
     (if 0 \<le> idx
      then Done () (s\<lparr>stack := take (nat idx) (stack s) @ replicate (nat idx - length (stack s)) Nil\<rparr>)
      else if - (idx + 1) \<le> lua_gettop s
      then Done () (s\<lparr>stack := take (nat (lua_gettop s + idx + 1)) (stack s)\<rparr>)
      else Undefined)"

definition lua_pop :: "'h lua_State \<Rightarrow> int \<Rightarrow> (unit, 'h) res" where
  "lua_pop s n = lua_settop s (- n - 1)"

text \<open>
  \<^verbatim>\<open>lua_rotate\<close>: the slice from the index to the top is rotated \<open>n\<close> places towards the top
  (\<open>n \<ge> 0\<close>) or \<open>- n\<close> places towards the bottom; \<open>|n|\<close> must not exceed the slice.
\<close>

definition lua_rotate :: "'h lua_State \<Rightarrow> int \<Rightarrow> int \<Rightarrow> (unit, 'h) res" where
  "lua_rotate s idx n =
     (case stackpos s idx of
        None \<Rightarrow> Undefined
      | Some p \<Rightarrow>
          (let seg = drop p (stack s); len = int (length seg) in
           if len < \<bar>n\<bar> then Undefined
           else (let m = nat (if 0 \<le> n then len - n else - n) in
                 Done () (s\<lparr>stack := take p (stack s) @ drop m seg @ take m seg\<rparr>))))"

definition lua_insert :: "'h lua_State \<Rightarrow> int \<Rightarrow> (unit, 'h) res" where
  "lua_insert s idx = lua_rotate s idx 1"

definition lua_copy :: "'h lua_State \<Rightarrow> int \<Rightarrow> int \<Rightarrow> (unit, 'h) res" where
  "lua_copy s fromidx toidx =
     (case index2addr s fromidx of None \<Rightarrow> Undefined | Some v \<Rightarrow> setslot s toidx v)"

definition lua_replace :: "'h lua_State \<Rightarrow> int \<Rightarrow> (unit, 'h) res" where
  "lua_replace s idx =
     andthen (lua_copy (s\<lparr>addressed := addressed s @ [idx]\<rparr>) (- 1) idx) (\<lambda>_ s. lua_pop s 1)"

definition lua_tointeger :: "'h engine \<Rightarrow> 'h lua_State \<Rightarrow> int \<Rightarrow> (lua_Integer, 'h) res" where
  "lua_tointeger env s idx =
     (case index2addr s idx of
        None \<Rightarrow> Undefined
      | Some v \<Rightarrow> Done (case v of Integer i \<Rightarrow> i | _ \<Rightarrow> e_tointeger env v) s)"

definition lua_touserdata :: "'h lua_State \<Rightarrow> int \<Rightarrow> (addr, 'h) res" where
  "lua_touserdata s idx =
     (case index2addr s idx of
        None \<Rightarrow> Undefined
      | Some v \<Rightarrow> Done (case v of Userdata a \<Rightarrow> a | LightUserdata p \<Rightarrow> p | _ \<Rightarrow> 0) s)"

definition lua_tothread :: "'h lua_State \<Rightarrow> int \<Rightarrow> (addr, 'h) res" where
  "lua_tothread s idx =
     (case index2addr s idx of
        None \<Rightarrow> Undefined
      | Some v \<Rightarrow> Done (case v of Thread a \<Rightarrow> a | _ \<Rightarrow> 0) s)"

definition lua_tocfunction :: "'h lua_State \<Rightarrow> int \<Rightarrow> (cfun, 'h) res" where
  "lua_tocfunction s idx =
     (case index2addr s idx of
        None \<Rightarrow> Undefined
      | Some v \<Rightarrow> Done (case v of CFunction f \<Rightarrow> f | CClosure f _ \<Rightarrow> f | _ \<Rightarrow> NullFn) s)"

text \<open>A store through a native pointer (\<^verbatim>\<open>*p = v\<close>); the null pointer is address 0.\<close>

definition store :: "'h lua_State \<Rightarrow> addr \<Rightarrow> cval \<Rightarrow> (unit, 'h) res" where
  "store s p v = (if p = 0 then Undefined else Done () (s\<lparr>mem := (mem s)(p := Some v)\<rparr>))"

section \<open>Primitives that can raise\<close>

definition lua_newtable :: "'h engine \<Rightarrow> 'h lua_State \<Rightarrow> (unit, 'h) res" where
  "lua_newtable env s =
     andthen (engine_call s (e_newtable env (heap s))) (\<lambda>t s. push s (Table t))"

text \<open>\<^verbatim>\<open>luaL_len\<close>: the length of the value at the index, honouring \<^verbatim>\<open>__len\<close>; the stack is left as found.\<close>

definition luaL_len :: "'h engine \<Rightarrow> 'h lua_State \<Rightarrow> int \<Rightarrow> (lua_Integer, 'h) res" where
  "luaL_len env s idx =
     (case index2addr s idx of
        None \<Rightarrow> Undefined
      | Some v \<Rightarrow> engine_call s (e_len env v (heap s)))"

text \<open>\<^verbatim>\<open>lua_gettable\<close>: replaces the key on the top by \<open>t[key]\<close>, \<open>t\<close> the value at the index.\<close>

definition lua_gettable :: "'h engine \<Rightarrow> 'h lua_State \<Rightarrow> int \<Rightarrow> (unit, 'h) res" where
  "lua_gettable env s idx =
     (case index2addr s idx of
        None \<Rightarrow> Undefined
      | Some t \<Rightarrow>
          if stack s = [] then Undefined
          else andthen (engine_call s (e_gettable env t (last (stack s)) (heap s)))
                 (\<lambda>v s. Done () (s\<lparr>stack := butlast (stack s) @ [v]\<rparr>)))"

definition lua_newthread :: "'h engine \<Rightarrow> 'h lua_State \<Rightarrow> (addr, 'h) res" where
  "lua_newthread env s =
     andthen (engine_call s (e_newthread env (heap s)))
       (\<lambda>a s. andthen (push s (Thread a)) (\<lambda>_ s. Done a s))"

definition lua_newuserdata :: "'h engine \<Rightarrow> 'h lua_State \<Rightarrow> size_t \<Rightarrow> (addr, 'h) res" where
  "lua_newuserdata env s sz =
     andthen (engine_call s (e_newuserdata env sz (heap s)))
       (\<lambda>a s. andthen (push s (Userdata a)) (\<lambda>_ s. Done a s))"

text \<open>
  \<^verbatim>\<open>lua_next\<close>: pops a key and pushes the pair that follows it in the table at the index
  (returning 1), or pushes nothing at the end of the table (returning 0). The value at the
  index must be a table.
\<close>

definition lua_next :: "'h engine \<Rightarrow> 'h lua_State \<Rightarrow> int \<Rightarrow> (int, 'h) res" where
  "lua_next env s idx =
     (case index2addr s idx of
        Some (Table t) \<Rightarrow>
          if stack s = [] then Undefined
          else andthen (engine_call s (e_next env t (last (stack s)) (heap s)))
                 (\<lambda>r s. case r of
                    None \<Rightarrow> Done 0 (s\<lparr>stack := butlast (stack s)\<rparr>)
                  | Some (k, v) \<Rightarrow> Done 1 (s\<lparr>stack := butlast (stack s) @ [k, v]\<rparr>))
      | _ \<Rightarrow> Undefined)"

text \<open>
  \<^verbatim>\<open>lua_pushcclosure\<close>: with no upvalue the result is a light C function and nothing is
  allocated; otherwise the top \<open>n\<close> values (at most 255) become the upvalues of a new closure.
\<close>

definition lua_pushcclosure :: "'h engine \<Rightarrow> 'h lua_State \<Rightarrow> cfun \<Rightarrow> int \<Rightarrow> (unit, 'h) res" where
  "lua_pushcclosure env s fn n =
     (if n = 0 then push s (CFunction fn)
      else if n < 0 \<or> MAXUPVAL < n \<or> lua_gettop s < n then Undefined
      else andthen (engine_call s (e_newcclosure env (heap s)))
             (\<lambda>_ s. Done () (s\<lparr>stack := take (length (stack s) - nat n) (stack s)
                                   @ [CClosure fn (drop (length (stack s) - nat n) (stack s))]\<rparr>)))"

definition lua_pushlstring :: "'h engine \<Rightarrow> 'h lua_State \<Rightarrow> addr \<Rightarrow> size_t \<Rightarrow> (unit, 'h) res" where
  "lua_pushlstring env s p len =
     andthen (engine_call s (e_pushlstring env p len (heap s))) (\<lambda>v s. push s v)"

definition lua_pushstring :: "'h engine \<Rightarrow> 'h lua_State \<Rightarrow> addr \<Rightarrow> (unit, 'h) res" where
  "lua_pushstring env s p =
     (if p = 0 then push s Nil
      else andthen (engine_call s (e_pushstring env p (heap s))) (\<lambda>v s. push s v))"

text \<open>\<^verbatim>\<open>lua_rawset\<close>: \<open>t[k] = v\<close> for the key and value on the top, both popped; \<open>t\<close> must be a table.\<close>

definition lua_rawset :: "'h engine \<Rightarrow> 'h lua_State \<Rightarrow> int \<Rightarrow> (unit, 'h) res" where
  "lua_rawset env s idx =
     (case index2addr s idx of
        Some (Table t) \<Rightarrow>
          if length (stack s) < 2 then Undefined
          else andthen
                 (engine_call s (e_rawset env t (stack s ! (length (stack s) - 2)) (last (stack s)) (heap s)))
                 (\<lambda>_ s. Done () (s\<lparr>stack := take (length (stack s) - 2) (stack s)\<rparr>))
      | _ \<Rightarrow> Undefined)"

definition lua_settable :: "'h engine \<Rightarrow> 'h lua_State \<Rightarrow> int \<Rightarrow> (unit, 'h) res" where
  "lua_settable env s idx =
     (case index2addr s idx of
        None \<Rightarrow> Undefined
      | Some t \<Rightarrow>
          if length (stack s) < 2 then Undefined
          else andthen
                 (engine_call s (e_settable env t (stack s ! (length (stack s) - 2)) (last (stack s)) (heap s)))
                 (\<lambda>_ s. Done () (s\<lparr>stack := take (length (stack s) - 2) (stack s)\<rparr>)))"

text \<open>
  \<^verbatim>\<open>ttisstring\<close>, \<^verbatim>\<open>svalue\<close> and \<^verbatim>\<open>cvt2str\<close>: whether a value is a string, the
  characters of one (the null pointer otherwise), and whether \<^verbatim>\<open>lua_tostring\<close> converts
  the value, which it does for numbers.
\<close>

definition ttisstring :: "val \<Rightarrow> bool" where
  "ttisstring v = (case v of Str _ \<Rightarrow> True | _ \<Rightarrow> False)"

definition svalue :: "val \<Rightarrow> string option" where
  "svalue v = (case v of Str x \<Rightarrow> Some x | _ \<Rightarrow> None)"

definition cvt2str :: "val \<Rightarrow> bool" where
  "cvt2str v = (case v of Integer _ \<Rightarrow> True | Float _ \<Rightarrow> True | _ \<Rightarrow> False)"

text \<open>
  \<^verbatim>\<open>lua_tostring\<close>: a string is returned as it is, a number is converted in its slot (which
  allocates), anything else gives the null pointer.
\<close>

definition lua_tostring :: "'h engine \<Rightarrow> 'h lua_State \<Rightarrow> int \<Rightarrow> (string option, 'h) res" where
  "lua_tostring env s idx =
     (case index2addr s idx of
        None \<Rightarrow> Undefined
      | Some v \<Rightarrow>
          if \<not> ttisstring v
          then (if \<not> cvt2str v then Done None s
                else andthen (engine_call s (e_tostring env v (heap s)))
                       (\<lambda>x s. andthen (setslot s idx (Str x)) (\<lambda>_ s. Done (Some x) s)))
          else Done (svalue v) s)"

text \<open>\<^verbatim>\<open>lua_error\<close>: raises the value on the top of the stack.\<close>

definition lua_error :: "'h lua_State \<Rightarrow> (int, 'h) res" where
  "lua_error s = (if stack s = [] then Undefined else Throw ERRRUN (last (stack s)) s)"

text \<open>\<^verbatim>\<open>luaL_where\<close>: the position of the function at the given level, as the engine reports it.\<close>

definition luaL_where :: "'h engine \<Rightarrow> 'h lua_State \<Rightarrow> int \<Rightarrow> string" where
  "luaL_where env s lvl = e_where env s lvl"

text \<open>
  \<^verbatim>\<open>luaL_error\<close> with a message that has no conversion specifier: it raises the message
  prefixed by the position of the caller of the running function (level 1).
\<close>

definition luaL_error :: "'h engine \<Rightarrow> 'h lua_State \<Rightarrow> string \<Rightarrow> (int, 'h) res" where
  "luaL_error env s msg =
     andthen (push s (Str (luaL_where env s 1 @ msg))) (\<lambda>_ s. lua_error s)"

section \<open>The auxiliary closures\<close>

definition s_newtable :: "'h engine \<Rightarrow> 'h lua_State \<Rightarrow> (int, 'h) res" where
  "s_newtable env s = andthen (lua_newtable env s) (\<lambda>_ s. Done 1 s)"

definition s_len :: "'h engine \<Rightarrow> 'h lua_State \<Rightarrow> (int, 'h) res" where
  "s_len env s =
     andthen (luaL_len env s (- 1)) (\<lambda>n s.
     andthen (lua_pushinteger s n) (\<lambda>_ s. Done 1 s))"

definition s_geti :: "'h engine \<Rightarrow> 'h lua_State \<Rightarrow> (int, 'h) res" where
  "s_geti env s = andthen (lua_gettable env s (- 2)) (\<lambda>_ s. Done 1 s)"

definition s_gettable :: "'h engine \<Rightarrow> 'h lua_State \<Rightarrow> (int, 'h) res" where
  "s_gettable env s = andthen (lua_gettable env s (- 2)) (\<lambda>_ s. Done 1 s)"

definition s_newthread :: "'h engine \<Rightarrow> 'h lua_State \<Rightarrow> (int, 'h) res" where
  "s_newthread env s = andthen (lua_newthread env s) (\<lambda>_ s. Done 1 s)"

definition s_newuserdata :: "'h engine \<Rightarrow> 'h lua_State \<Rightarrow> (int, 'h) res" where
  "s_newuserdata env s =
     andthen (lua_tointeger env s (- 1)) (\<lambda>sz s.
     andthen (lua_pop s 1) (\<lambda>_ s.
     andthen (lua_newuserdata env s sz) (\<lambda>_ s. Done 1 s)))"

definition s_next :: "'h engine \<Rightarrow> 'h lua_State \<Rightarrow> (int, 'h) res" where
  "s_next env s =
     andthen (lua_next env s (- 2)) (\<lambda>r s. if r = 0 then Done 0 s else Done 2 s)"

definition s_pushcclosure :: "'h engine \<Rightarrow> 'h lua_State \<Rightarrow> (int, 'h) res" where
  "s_pushcclosure env s =
     andthen (lua_tocfunction s (- 1)) (\<lambda>cf s.
     andthen (lua_pop s 1) (\<lambda>_ s.
     andthen (lua_pushcclosure env s cf (lua_gettop s)) (\<lambda>_ s. Done 1 s)))"

definition s_pushlstring :: "'h engine \<Rightarrow> 'h lua_State \<Rightarrow> (int, 'h) res" where
  "s_pushlstring env s =
     andthen (lua_touserdata s (- 2)) (\<lambda>p s.
     andthen (lua_tointeger env s (- 1)) (\<lambda>len s.
     andthen (lua_pop s 2) (\<lambda>_ s.
     andthen (lua_pushlstring env s p len) (\<lambda>_ s. Done 1 s))))"

definition s_pushstring :: "'h engine \<Rightarrow> 'h lua_State \<Rightarrow> (int, 'h) res" where
  "s_pushstring env s =
     andthen (lua_touserdata s (- 1)) (\<lambda>p s.
     andthen (lua_pop s 1) (\<lambda>_ s.
     andthen (lua_pushstring env s p) (\<lambda>_ s. Done 1 s)))"

definition s_rawset :: "'h engine \<Rightarrow> 'h lua_State \<Rightarrow> (int, 'h) res" where
  "s_rawset env s = andthen (lua_rawset env s (- 3)) (\<lambda>_ s. Done 0 s)"

definition s_settable :: "'h engine \<Rightarrow> 'h lua_State \<Rightarrow> (int, 'h) res" where
  "s_settable env s = andthen (lua_settable env s (- 3)) (\<lambda>_ s. Done 0 s)"

definition s_tostring :: "'h engine \<Rightarrow> 'h lua_State \<Rightarrow> (int, 'h) res" where
  "s_tostring env s =
     andthen (lua_touserdata s (- 1)) (\<lambda>p s.
     andthen (lua_tostring env s (- 2)) (\<lambda>x s.
     andthen (store s p (CStr x)) (\<lambda>_ s.
     andthen (lua_pop s 1) (\<lambda>_ s. Done 1 s))))"

section \<open>The callback trampoline\<close>

definition RCALL_STACK_ERR :: int where "RCALL_STACK_ERR = - 2"
definition RCALL_ERR :: int where "RCALL_ERR = - 3"

text \<open>
  \<^verbatim>\<open>s_call_rust\<close>: the callback is the pointer in upvalue 1; calling the null pointer is
  undefined. The callback's result code decides how control returns to the engine.
\<close>

definition s_call_rust :: "'h engine \<Rightarrow> 'h lua_State \<Rightarrow> (int, 'h) res" where
  "s_call_rust env s =
     andthen (lua_touserdata s (lua_upvalueindex 1)) (\<lambda>callback s.
       if callback = 0 then Undefined
       else (case host env callback s of
               (ret, s) \<Rightarrow>
                 if ret = LUA_MULTRET then Done LUA_MULTRET s
                 else if ret = RCALL_STACK_ERR then luaL_error env s ''stack overflow in rust callback''
                 else if ret = RCALL_ERR then lua_error s
                 else Done ret s))"

section \<open>The protected call\<close>

definition call_cfunction :: "'h engine \<Rightarrow> cfun \<Rightarrow> 'h lua_State \<Rightarrow> (int, 'h) res" where
  "call_cfunction env f s =
     (case f of
        NullFn \<Rightarrow> Undefined
      | S_newtable \<Rightarrow> s_newtable env s
      | S_len \<Rightarrow> s_len env s
      | S_geti \<Rightarrow> s_geti env s
      | S_gettable \<Rightarrow> s_gettable env s
      | S_newthread \<Rightarrow> s_newthread env s
      | S_newuserdata \<Rightarrow> s_newuserdata env s
      | S_next \<Rightarrow> s_next env s
      | S_pushcclosure \<Rightarrow> s_pushcclosure env s
      | S_pushlstring \<Rightarrow> s_pushlstring env s
      | S_pushstring \<Rightarrow> s_pushstring env s
      | S_rawset \<Rightarrow> s_rawset env s
      | S_settable \<Rightarrow> s_settable env s
      | S_tostring \<Rightarrow> s_tostring env s
      | S_call_rust \<Rightarrow> s_call_rust env s
      | Extern a \<Rightarrow> e_extern env a s)"

text \<open>
  \<^verbatim>\<open>luaD_call\<close> on a frame whose stack holds the arguments: a C function runs with its
  upvalues; any other value is the engine's business.
\<close>

definition luaD_call :: "'h engine \<Rightarrow> val \<Rightarrow> 'h lua_State \<Rightarrow> (int, 'h) res" where
  "luaD_call env f s =
     (case f of
        CFunction cf \<Rightarrow> call_cfunction env cf (s\<lparr>upvalues := []\<rparr>)
      | CClosure cf ups \<Rightarrow> call_cfunction env cf (s\<lparr>upvalues := ups\<rparr>)
      | _ \<Rightarrow> e_call env f (s\<lparr>upvalues := []\<rparr>))"

text \<open>\<^verbatim>\<open>moveresults\<close>: the results of a call adjusted to the number the caller wants.\<close>

definition moveresults :: "int \<Rightarrow> val list \<Rightarrow> val list" where
  "moveresults wanted rs =
     (if wanted = LUA_MULTRET then rs
      else take (nat wanted) rs @ replicate (nat wanted - length rs) Nil)"

text \<open>
  \<^verbatim>\<open>lua_pcall\<close> with message handler 0, as at every call site. The function is below its
  \<open>nargs\<close> arguments. A normal return of \<open>k\<close> leaves the top \<open>k\<close> values of the callee's stack,
  adjusted to \<open>nresults\<close>, where the function was; a raise leaves the error value there. A
  callee that returns a count it has not pushed (negative counts included) is undefined.
\<close>

definition lua_pcall :: "'h engine \<Rightarrow> 'h lua_State \<Rightarrow> int \<Rightarrow> int \<Rightarrow> (int, 'h) res" where
  "lua_pcall env s nargs nresults =
     (if nargs < 0 \<or> lua_gettop s < nargs + 1 \<or> nresults < LUA_MULTRET then Undefined
      else
        (let fpos = length (stack s) - nat nargs - 1;
             base = take fpos (stack s);
             f = stack s ! fpos;
             args = drop (Suc fpos) (stack s)
         in case luaD_call env f (s\<lparr>stack := args\<rparr>) of
              Undefined \<Rightarrow> Undefined
            | Throw c v s' \<Rightarrow>
                Done (status_of c) (s'\<lparr>stack := base @ [errobj c v], upvalues := upvalues s\<rparr>)
            | Done k s' \<Rightarrow>
                if k < 0 \<or> int (length (stack s')) < k then Undefined
                else Done LUA_OK
                       (s'\<lparr>stack := base @ moveresults nresults
                                              (drop (length (stack s') - nat k) (stack s')),
                           upvalues := upvalues s\<rparr>)))"

section \<open>The protected operations\<close>

text \<open>
  Each wrapper takes the engine, the state and the arguments of the C function; an output
  parameter is the address it points to. The result is the returned status and the state.
\<close>

definition plua_newtable :: "'h engine \<Rightarrow> 'h lua_State \<Rightarrow> (int, 'h) res" where
  "plua_newtable env s =
     andthen (lua_pushcfunction s S_newtable) (\<lambda>_ s.
     lua_pcall env s 0 1)"

definition pluaL_len :: "'h engine \<Rightarrow> 'h lua_State \<Rightarrow> int \<Rightarrow> addr \<Rightarrow> (int, 'h) res" where
  "pluaL_len env s index len =
     (let index = lua_absindex s index in
      andthen (lua_pushcfunction s S_len) (\<lambda>_ s.
      andthen (lua_pushvalue s index) (\<lambda>_ s.
      andthen (lua_pcall env s 1 1) (\<lambda>r s.
      if r = LUA_OK
      then andthen (lua_tointeger env s (- 1)) (\<lambda>n s.
           andthen (store s len (CInteger n)) (\<lambda>_ s.
           andthen (lua_pop s 1) (\<lambda>_ s. Done r s)))
      else Done r s))))"

definition plua_geti :: "'h engine \<Rightarrow> 'h lua_State \<Rightarrow> int \<Rightarrow> lua_Integer \<Rightarrow> (int, 'h) res" where
  "plua_geti env s index i =
     (let index = lua_absindex s index in
      andthen (lua_pushcfunction s S_geti) (\<lambda>_ s.
      andthen (lua_pushvalue s index) (\<lambda>_ s.
      andthen (lua_pushinteger s i) (\<lambda>_ s.
      lua_pcall env s 2 1))))"

definition plua_gettable :: "'h engine \<Rightarrow> 'h lua_State \<Rightarrow> int \<Rightarrow> (int, 'h) res" where
  "plua_gettable env s index =
     (let index = lua_absindex s index in
      andthen (lua_pushcfunction s S_gettable) (\<lambda>_ s.
      andthen (lua_pushvalue s index) (\<lambda>_ s.
      andthen (lua_rotate s (- 3) (- 1)) (\<lambda>_ s.
      lua_pcall env s 2 1))))"

definition plua_newthread :: "'h engine \<Rightarrow> 'h lua_State \<Rightarrow> addr \<Rightarrow> (int, 'h) res" where
  "plua_newthread env s thread =
     andthen (lua_pushcfunction s S_newthread) (\<lambda>_ s.
     andthen (lua_pcall env s 0 1) (\<lambda>r s.
     if r = LUA_OK
     then andthen (lua_tothread s (- 1)) (\<lambda>t s.
          andthen (store s thread (CPtr t)) (\<lambda>_ s. Done r s))
     else Done r s))"

definition plua_newuserdata :: "'h engine \<Rightarrow> 'h lua_State \<Rightarrow> size_t \<Rightarrow> addr \<Rightarrow> (int, 'h) res" where
  "plua_newuserdata env s sz ud =
     andthen (lua_pushcfunction s S_newuserdata) (\<lambda>_ s.
     andthen (lua_pushinteger s sz) (\<lambda>_ s.
     andthen (lua_pcall env s 1 1) (\<lambda>r s.
     if r = LUA_OK
     then andthen (lua_touserdata s (- 1)) (\<lambda>p s.
          andthen (store s ud (CPtr p)) (\<lambda>_ s. Done r s))
     else Done r s)))"

definition plua_next :: "'h engine \<Rightarrow> 'h lua_State \<Rightarrow> int \<Rightarrow> addr \<Rightarrow> (int, 'h) res" where
  "plua_next env s index res =
     (let top = lua_gettop s - 1;
          index = lua_absindex s index in
      andthen (lua_pushcfunction s S_next) (\<lambda>_ s.
      andthen (lua_pushvalue s index) (\<lambda>_ s.
      andthen (lua_rotate s (- 3) (- 1)) (\<lambda>_ s.
      andthen (lua_pcall env s 2 LUA_MULTRET) (\<lambda>r s.
      if r = LUA_OK
      then (if lua_gettop s - top = 2
            then andthen (store s res (CInt 1)) (\<lambda>_ s. Done r s)
            else andthen (store s res (CInt 0)) (\<lambda>_ s. Done r s))
      else Done r s)))))"

definition plua_pushcclosure :: "'h engine \<Rightarrow> 'h lua_State \<Rightarrow> cfun \<Rightarrow> int \<Rightarrow> (int, 'h) res" where
  "plua_pushcclosure env s function n =
     andthen (lua_pushcfunction s S_pushcclosure) (\<lambda>_ s.
     andthen (lua_insert s (- (n + 1))) (\<lambda>_ s.
     andthen (lua_pushcfunction s function) (\<lambda>_ s.
     lua_pcall env s (n + 1) 1)))"

definition plua_pushlstring :: "'h engine \<Rightarrow> 'h lua_State \<Rightarrow> addr \<Rightarrow> size_t \<Rightarrow> (int, 'h) res" where
  "plua_pushlstring env s p len =
     andthen (lua_pushcfunction s S_pushlstring) (\<lambda>_ s.
     andthen (lua_pushlightuserdata s p) (\<lambda>_ s.
     andthen (lua_pushinteger s len) (\<lambda>_ s.
     lua_pcall env s 2 1)))"

definition plua_pushstring :: "'h engine \<Rightarrow> 'h lua_State \<Rightarrow> addr \<Rightarrow> (int, 'h) res" where
  "plua_pushstring env s p =
     andthen (lua_pushcfunction s S_pushstring) (\<lambda>_ s.
     andthen (lua_pushlightuserdata s p) (\<lambda>_ s.
     lua_pcall env s 1 1))"

definition plua_rawset :: "'h engine \<Rightarrow> 'h lua_State \<Rightarrow> int \<Rightarrow> (int, 'h) res" where
  "plua_rawset env s index =
     andthen (lua_pushvalue s index) (\<lambda>_ s.
     andthen (lua_insert s (- 3)) (\<lambda>_ s.
     andthen (lua_pushcfunction s S_rawset) (\<lambda>_ s.
     andthen (lua_insert s (- 4)) (\<lambda>_ s.
     lua_pcall env s 3 0))))"

definition plua_settable :: "'h engine \<Rightarrow> 'h lua_State \<Rightarrow> int \<Rightarrow> (int, 'h) res" where
  "plua_settable env s index =
     andthen (lua_pushvalue s index) (\<lambda>_ s.
     andthen (lua_insert s (- 3)) (\<lambda>_ s.
     andthen (lua_pushcfunction s S_settable) (\<lambda>_ s.
     andthen (lua_insert s (- 4)) (\<lambda>_ s.
     lua_pcall env s 3 0))))"

definition plua_tostring :: "'h engine \<Rightarrow> 'h lua_State \<Rightarrow> int \<Rightarrow> addr \<Rightarrow> (int, 'h) res" where
  "plua_tostring env s index sp =
     (let index = lua_absindex s index in
      andthen (lua_pushcfunction s S_tostring) (\<lambda>_ s.
      andthen (lua_pushvalue s index) (\<lambda>_ s.
      andthen (lua_pushlightuserdata s sp) (\<lambda>_ s.
      andthen (lua_pcall env s 2 1) (\<lambda>r s.
      if r = LUA_OK
      then andthen (lua_replace s index) (\<lambda>_ s. Done r s)
      else Done r s)))))"

definition plua_pushrclosure :: "'h engine \<Rightarrow> 'h lua_State \<Rightarrow> addr \<Rightarrow> int \<Rightarrow> (int, 'h) res" where
  "plua_pushrclosure env s function n =
     andthen (lua_pushlightuserdata s function) (\<lambda>_ s.
     andthen (lua_insert s (- (n + 1))) (\<lambda>_ s.
     plua_pushcclosure env s S_call_rust (n + 1)))"

section \<open>Notions used to state the properties\<close>

text \<open>
  A valid index in the sense of the reference manual: a stack slot in use, the registry, or
  an existing upvalue of the running function.
\<close>

definition valid_index :: "'h lua_State \<Rightarrow> int \<Rightarrow> bool" where
  "valid_index s idx =
     (stackpos s idx \<noteq> None \<or> idx = LUA_REGISTRYINDEX
      \<or> (ispseudo idx \<and> LUA_REGISTRYINDEX - idx \<le> int (length (upvalues s))
          \<and> LUA_REGISTRYINDEX - idx \<le> MAXUPVAL + 1))"

text \<open>The state with the slot of a valid index overwritten.\<close>

definition replaced :: "'h lua_State \<Rightarrow> int \<Rightarrow> val \<Rightarrow> 'h lua_State" where
  "replaced s idx v =
     (case stackpos s idx of
        Some p \<Rightarrow> s\<lparr>stack := (stack s)[p := v]\<rparr>
      | None \<Rightarrow>
          if idx = LUA_REGISTRYINDEX then s\<lparr>registry := v\<rparr>
          else s\<lparr>upvalues := (upvalues s)[nat (LUA_REGISTRYINDEX - idx - 1) := v]\<rparr>)"

text \<open>
  The two stack shapes of a protected operation. \<open>below\<close> is the caller's region under the
  operands, \<open>ns\<close> the result counts the operation declares. The call returns a status; on
  success the region is as it was and one of the declared counts of values is above it, on
  failure exactly one value is above it.
\<close>

definition returns_shape :: "val list \<Rightarrow> nat list \<Rightarrow> (int, 'h) res \<Rightarrow> bool" where
  "returns_shape below ns r =
     (case r of
        Done st s' \<Rightarrow>
          if st = LUA_OK
          then take (length below) (stack s') = below
               \<and> length (stack s') - length below \<in> set ns \<and> length below \<le> length (stack s')
          else stack s' \<noteq> [] \<and> butlast (stack s') = below
      | _ \<Rightarrow> False)"

text \<open>
  The shape of the string coercion, which works in place: on success the stack keeps its
  height and every slot but the one the index denotes is as it was.
\<close>

definition inplace_shape :: "'h lua_State \<Rightarrow> int \<Rightarrow> (int, 'h) res \<Rightarrow> bool" where
  "inplace_shape s idx r =
     (case r of
        Done st s' \<Rightarrow>
          if st = LUA_OK
          then length (stack s') = length (stack s)
               \<and> (\<forall>i < length (stack s). stackpos s idx \<noteq> Some i \<longrightarrow> stack s' ! i = stack s ! i)
          else stack s' \<noteq> [] \<and> butlast (stack s') = stack s
      | _ \<Rightarrow> False)"

text \<open>
  An output parameter is written exactly on success: then the cell holds a value and no
  other cell has changed; on failure the memory is as it was.
\<close>

definition out_written :: "'h lua_State \<Rightarrow> addr \<Rightarrow> (int, 'h) res \<Rightarrow> bool" where
  "out_written s out r =
     (case r of
        Done st s' \<Rightarrow>
          if st = LUA_OK
          then mem s' out \<noteq> None \<and> mem s' = (mem s)(out := mem s' out)
          else mem s' = mem s
      | _ \<Rightarrow> False)"

text \<open>The indices a call handed to \<^verbatim>\<open>lua_pushvalue\<close> and \<^verbatim>\<open>lua_replace\<close>.\<close>

definition handed :: "'h lua_State \<Rightarrow> (int, 'h) res \<Rightarrow> int list" where
  "handed s r =
     (case r of Done _ s' \<Rightarrow> drop (length (addressed s)) (addressed s') | _ \<Rightarrow> [])"

text \<open>An outcome with the history variable cleared: what a caller can observe.\<close>

definition forget :: "(int, 'h) res \<Rightarrow> (int, 'h) res" where
  "forget r =
     (case r of
        Undefined \<Rightarrow> Undefined
      | Throw c v s \<Rightarrow> Throw c v (s\<lparr>addressed := []\<rparr>)
      | Done a s \<Rightarrow> Done a (s\<lparr>addressed := []\<rparr>))"

subsection \<open>Traversal of a table\<close>

text \<open>
  Modelled from the spec: the engine's iteration primitive over a table with the entries
  \<open>kvs\<close>, in the order the engine visits them. The key nil starts the traversal, a key of
  the table gives the entry after it (none after the last), any other key is an error.
\<close>

fun entry_after :: "(val \<times> val) list \<Rightarrow> val \<Rightarrow> raised + (val \<times> val) option" where
  "entry_after [] k = Inl (ERRRUN, Str ''invalid key to next'')"
| "entry_after (e # es) k =
     (if fst e = k then Inr (case es of [] \<Rightarrow> None | e' # _ \<Rightarrow> Some e') else entry_after es k)"

definition table_next :: "(val \<times> val) list \<Rightarrow> val \<Rightarrow> raised + (val \<times> val) option" where
  "table_next kvs k =
     (if k = Nil then Inr (case kvs of [] \<Rightarrow> None | e # _ \<Rightarrow> Some e) else entry_after kvs k)"




subsection \<open>A small engine and states to run the operations on\<close>

definition sample_table :: "(val \<times> val) list" where
  "sample_table = [(Str ''a'', Integer 1), (Str ''b'', Integer 2)]"

text \<open>
  Every primitive of this engine is decided by its arguments: tables can be indexed and
  have length 2, other values raise; the heap counts allocations; no function on the call
  stack has a position (callbacks are called from native code). The host callbacks 1 to 5
  return a count, the overflow marker, the rethrow marker (after pushing an error value),
  a negative code that is no marker, and the variable-result marker.
\<close>

definition stub_engine :: "nat engine" where
  "stub_engine =
     \<lparr> e_newtable = (\<lambda>h. (Inr h, Suc h)),
       e_len = (\<lambda>v h. case v of Table _ \<Rightarrow> (Inr 2, h)
                              | _ \<Rightarrow> (Inl (ERRRUN, Str ''attempt to get length''), h)),
       e_gettable = (\<lambda>t k h. case t of Table _ \<Rightarrow> (Inr (Integer 1), h)
                                     | _ \<Rightarrow> (Inl (ERRRUN, Str ''attempt to index''), h)),
       e_newthread = (\<lambda>h. (Inr (100 + h), Suc h)),
       e_newuserdata = (\<lambda>sz h. (Inr (200 + h), Suc h)),
       e_next = (\<lambda>t k h. (table_next sample_table k, h)),
       e_newcclosure = (\<lambda>h. (Inr (), Suc h)),
       e_pushlstring = (\<lambda>p n h. (Inr (Str ''xy''), Suc h)),
       e_pushstring = (\<lambda>p h. (Inr (Str ''xy''), Suc h)),
       e_rawset = (\<lambda>t k v h. if k = Nil then (Inl (ERRRUN, Str ''table index is nil''), h)
                             else (Inr (), h)),
       e_settable = (\<lambda>t k v h. case t of Table _ \<Rightarrow> (Inr (), h)
                                       | _ \<Rightarrow> (Inl (ERRRUN, Str ''attempt to index''), h)),
       e_tostring = (\<lambda>v h. (Inr ''7'', Suc h)),
       e_tointeger = (\<lambda>v. 0),
       e_where = (\<lambda>s lvl. []),
       host = (\<lambda>a s. if a = 1 then (2, s\<lparr>stack := stack s @ [Integer 1, Integer 2]\<rparr>)
                      else if a = 2 then (RCALL_STACK_ERR, s)
                      else if a = 3 then (RCALL_ERR, s\<lparr>stack := stack s @ [Str ''boom'']\<rparr>)
                      else if a = 4 then (- 4, s)
                      else (LUA_MULTRET, s)),
       e_extern = (\<lambda>a s. Done 0 s),
       e_call = (\<lambda>v s. Throw ERRRUN (Str ''attempt to call'') s) \<rparr>"

definition state0 :: "val list \<Rightarrow> nat lua_State" where
  "state0 st =
     \<lparr> stack = st, upvalues = [], registry = Table 0, heap = 1, mem = (\<lambda>_. None), addressed = [] \<rparr>"

text \<open>The frame of a C closure with the given arguments and upvalues.\<close>

definition frame0 :: "val list \<Rightarrow> val list \<Rightarrow> nat lua_State" where
  "frame0 st ups = (state0 st)\<lparr>upvalues := ups\<rparr>"

text \<open>
  An engine whose tables live in the heap: the heap is the list of the tables' entries,
  table \<open>t\<close> at position \<open>t\<close>, each in traversal order. A raw set replaces or appends the
  entry of its key; the iteration step reads the table. Every function on the call stack is
  at line 1 of a chunk, and every host callback reports a stack overflow.
\<close>

definition table_engine :: "(val \<times> val) list list engine" where
  "table_engine =
     \<lparr> e_newtable = (\<lambda>h. (Inr (length h), h @ [[]])),
       e_len = (\<lambda>v h. (Inl (ERRRUN, Str ''attempt to get length''), h)),
       e_gettable = (\<lambda>t k h. case t of
                        Table i \<Rightarrow> (Inr (case map_of (if i < length h then h ! i else []) k of
                                          Some v \<Rightarrow> v | None \<Rightarrow> Nil), h)
                      | _ \<Rightarrow> (Inl (ERRRUN, Str ''attempt to index''), h)),
       e_newthread = (\<lambda>h. (Inl (ERRMEM, Nil), h)),
       e_newuserdata = (\<lambda>sz h. (Inl (ERRMEM, Nil), h)),
       e_next = (\<lambda>t k h. (if t < length h then table_next (h ! t) k
                              else Inl (ERRRUN, Str ''no such table''), h)),
       e_newcclosure = (\<lambda>h. (Inr (), h)),
       e_pushlstring = (\<lambda>p n h. (Inr (Str ''xy''), h)),
       e_pushstring = (\<lambda>p h. (Inr (Str ''xy''), h)),
       e_rawset = (\<lambda>t k v h. if k = Nil \<or> \<not> t < length h
                             then (Inl (ERRRUN, Str ''table index is nil''), h)
                             else (Inr (), h[t := filter (\<lambda>e. fst e \<noteq> k) (h ! t) @ [(k, v)]])),
       e_settable = (\<lambda>t k v h. (Inl (ERRRUN, Str ''attempt to index''), h)),
       e_tostring = (\<lambda>v h. (Inr ''7'', h)),
       e_tointeger = (\<lambda>v. 0),
       e_where = (\<lambda>s lvl. ''chunk:1: ''),
       host = (\<lambda>a s. (RCALL_STACK_ERR, s)),
       e_extern = (\<lambda>a s. Done 0 s),
       e_call = (\<lambda>v s. Throw ERRRUN (Str ''attempt to call'') s) \<rparr>"

definition tstate :: "val list \<Rightarrow> val list \<Rightarrow> (val \<times> val) list list \<Rightarrow> (val \<times> val) list list lua_State" where
  "tstate st ups h =
     \<lparr> stack = st, upvalues = ups, registry = Nil, heap = h, mem = (\<lambda>_. None), addressed = [] \<rparr>"

section \<open>Auxiliary facts\<close>

lemma andthen_simps [simp]:
  "andthen Undefined f = Undefined"
  "andthen (Throw c v s) f = Throw c v s"
  "andthen (Done a s) f = f a s"
  by (simp_all add: andthen_def)

lemma status_of_nz [simp]: "status_of c \<noteq> 0" "status_of c \<noteq> LUA_OK"
  by (cases c; simp add: LUA_OK_def)+

lemmas const_defs = LUA_OK_def LUA_MULTRET_def LUA_REGISTRYINDEX_def LUAI_MAXSTACK_def MAXUPVAL_def
  ispseudo_def lua_upvalueindex_def RCALL_ERR_def RCALL_STACK_ERR_def


subsection \<open>Reading relative indices\<close>

lemma idx_m1: "stack s \<noteq> [] \<Longrightarrow> index2addr s (- 1) = Some (last (stack s))"
  by (cases "stack s" rule: rev_cases) (simp_all add: index2addr_def lua_gettop_def const_defs)

lemma idx_m2: "stack s = xs @ [a, b] \<Longrightarrow> index2addr s (- 2) = Some a"
  by (simp add: index2addr_def lua_gettop_def const_defs nth_append)

lemma idx_m3: "stack s = xs @ [a, b, c] \<Longrightarrow> index2addr s (- 3) = Some a"
  by (simp add: index2addr_def lua_gettop_def const_defs nth_append)

lemma idx_up1: "upvalues s = u # us \<Longrightarrow> index2addr s (lua_upvalueindex 1) = Some u"
  by (simp add: index2addr_def lua_gettop_def const_defs)

lemma index2addr_abs_push:
  assumes "valid_index s idx" "stack s' = stack s @ ys" "upvalues s' = upvalues s" "registry s' = registry s"
  shows "index2addr s' (lua_absindex s idx) = index2addr s idx"
  using assms
  by (auto simp: valid_index_def index2addr_def lua_absindex_def stackpos_def lua_gettop_def
      const_defs nth_append Let_def split: if_splits)

lemma index2addr_abs_upd:
  "valid_index s idx \<Longrightarrow>
   index2addr (s\<lparr>stack := stack s @ ys\<rparr>) (lua_absindex s idx) = index2addr s idx"
  by (rule index2addr_abs_push) simp_all

subsection \<open>Moving values\<close>

lemma rotate_3:
  "stack s = xs @ [a, b, c] \<Longrightarrow> lua_rotate s (- 3) (- 1) = Done () (s\<lparr>stack := xs @ [b, c, a]\<rparr>)"
  by (simp add: lua_rotate_def stackpos_def lua_gettop_def const_defs)

lemma insert_3:
  "stack s = xs @ [a, b, c] \<Longrightarrow> lua_insert s (- 3) = Done () (s\<lparr>stack := xs @ [c, a, b]\<rparr>)"
  by (simp add: lua_insert_def lua_rotate_def stackpos_def lua_gettop_def const_defs)

lemma insert_4:
  "stack s = xs @ [a, b, c, d] \<Longrightarrow> lua_insert s (- 4) = Done () (s\<lparr>stack := xs @ [d, a, b, c]\<rparr>)"
  by (simp add: lua_insert_def lua_rotate_def stackpos_def lua_gettop_def const_defs)

lemma insert_1: "stack s = xs @ [a] \<Longrightarrow> lua_insert s (- 1) = Done () (s\<lparr>stack := xs @ [a]\<rparr>)"
  by (simp add: lua_insert_def lua_rotate_def stackpos_def lua_gettop_def const_defs)

lemma insert_n:
  assumes "stack s = xs @ ups @ [f]" "int (length ups) = n" "n \<le> MAXUPVAL"
  shows "lua_insert s (- n - 1) = Done () (s\<lparr>stack := xs @ f # ups\<rparr>)"
  using assms
  by (auto simp add: lua_insert_def lua_rotate_def stackpos_def lua_gettop_def const_defs)

lemma pop_1: "stack s = xs @ [a] \<Longrightarrow> lua_pop s 1 = Done () (s\<lparr>stack := xs\<rparr>)"
  by (simp add: lua_pop_def lua_settop_def lua_gettop_def)

lemma pop_2: "stack s = xs @ [a, b] \<Longrightarrow> lua_pop s 2 = Done () (s\<lparr>stack := xs\<rparr>)"
  by (simp add: lua_pop_def lua_settop_def lua_gettop_def)


subsection \<open>The protected call on a frame\<close>

lemma pcall_cfun:
  assumes "stack s = base @ CFunction cf # args" "nargs = int (length args)" "LUA_MULTRET \<le> nres"
  shows "lua_pcall env s nargs nres =
     (case call_cfunction env cf (s\<lparr>stack := args, upvalues := []\<rparr>) of
        Undefined \<Rightarrow> Undefined
      | Throw c v s' \<Rightarrow>
          Done (status_of c) (s'\<lparr>stack := base @ [errobj c v], upvalues := upvalues s\<rparr>)
      | Done k s' \<Rightarrow>
          if k < 0 \<or> int (length (stack s')) < k then Undefined
          else Done LUA_OK
                 (s'\<lparr>stack := base @ moveresults nres (drop (length (stack s') - nat k) (stack s')),
                     upvalues := upvalues s\<rparr>))"
  using assms
  by (simp add: lua_pcall_def lua_gettop_def luaD_call_def Let_def nth_append split: res.splits)

lemma pcall_cclosure:
  assumes "stack s = base @ CClosure cf ups # args" "nargs = int (length args)" "LUA_MULTRET \<le> nres"
  shows "lua_pcall env s nargs nres =
     (case call_cfunction env cf (s\<lparr>stack := args, upvalues := ups\<rparr>) of
        Undefined \<Rightarrow> Undefined
      | Throw c v s' \<Rightarrow>
          Done (status_of c) (s'\<lparr>stack := base @ [errobj c v], upvalues := upvalues s\<rparr>)
      | Done k s' \<Rightarrow>
          if k < 0 \<or> int (length (stack s')) < k then Undefined
          else Done LUA_OK
                 (s'\<lparr>stack := base @ moveresults nres (drop (length (stack s') - nat k) (stack s')),
                     upvalues := upvalues s\<rparr>))"
  using assms
  by (simp add: lua_pcall_def lua_gettop_def luaD_call_def Let_def nth_append split: res.splits)


subsection \<open>The closures on their frames\<close>

lemma s_newtable_run:
  "stack s = [] \<Longrightarrow> s_newtable env s =
     (case e_newtable env (heap s) of
        (Inl (c, v), h) \<Rightarrow> Throw c v (s\<lparr>heap := h\<rparr>)
      | (Inr t, h) \<Rightarrow> Done 1 (s\<lparr>heap := h, stack := [Table t]\<rparr>))"
  by (simp add: s_newtable_def lua_newtable_def engine_call_def push_def split: prod.splits sum.splits)

lemma s_len_run:
  "stack s = [t] \<Longrightarrow> s_len env s =
     (case e_len env t (heap s) of
        (Inl (c, v), h) \<Rightarrow> Throw c v (s\<lparr>heap := h\<rparr>)
      | (Inr n, h) \<Rightarrow> Done 1 (s\<lparr>heap := h, stack := [t, Integer n]\<rparr>))"
  by (simp add: s_len_def luaL_len_def idx_m1 engine_call_def lua_pushinteger_def push_def
      split: prod.splits sum.splits)

lemma gettable_m2:
  "stack s = [t, k] \<Longrightarrow> lua_gettable env s (- 2) =
     (case e_gettable env t k (heap s) of
        (Inl (c, v), h) \<Rightarrow> Throw c v (s\<lparr>heap := h\<rparr>)
      | (Inr w, h) \<Rightarrow> Done () (s\<lparr>heap := h, stack := [t, w]\<rparr>))"
  by (simp add: lua_gettable_def idx_m2[where xs="[]"] engine_call_def split: prod.splits sum.splits)

lemma s_gettable_run:
  "stack s = [t, k] \<Longrightarrow> s_gettable env s =
     (case e_gettable env t k (heap s) of
        (Inl (c, v), h) \<Rightarrow> Throw c v (s\<lparr>heap := h\<rparr>)
      | (Inr w, h) \<Rightarrow> Done 1 (s\<lparr>heap := h, stack := [t, w]\<rparr>))"
  by (simp add: s_gettable_def gettable_m2 split: prod.splits sum.splits)

lemma s_geti_run:
  "stack s = [t, k] \<Longrightarrow> s_geti env s =
     (case e_gettable env t k (heap s) of
        (Inl (c, v), h) \<Rightarrow> Throw c v (s\<lparr>heap := h\<rparr>)
      | (Inr w, h) \<Rightarrow> Done 1 (s\<lparr>heap := h, stack := [t, w]\<rparr>))"
  by (simp add: s_geti_def gettable_m2 split: prod.splits sum.splits)

lemma s_newthread_run:
  "stack s = [] \<Longrightarrow> s_newthread env s =
     (case e_newthread env (heap s) of
        (Inl (c, v), h) \<Rightarrow> Throw c v (s\<lparr>heap := h\<rparr>)
      | (Inr a, h) \<Rightarrow> Done 1 (s\<lparr>heap := h, stack := [Thread a]\<rparr>))"
  by (simp add: s_newthread_def lua_newthread_def engine_call_def push_def split: prod.splits sum.splits)

lemma s_newuserdata_run:
  "stack s = [Integer sz] \<Longrightarrow> s_newuserdata env s =
     (case e_newuserdata env sz (heap s) of
        (Inl (c, v), h) \<Rightarrow> Throw c v (s\<lparr>stack := [], heap := h\<rparr>)
      | (Inr a, h) \<Rightarrow> Done 1 (s\<lparr>heap := h, stack := [Userdata a]\<rparr>))"
  by (simp add: s_newuserdata_def lua_tointeger_def idx_m1 pop_1[where xs="[]"] lua_newuserdata_def
      engine_call_def push_def split: prod.splits sum.splits)

lemma s_next_run:
  "stack s = [Table t, k] \<Longrightarrow> s_next env s =
     (case e_next env t k (heap s) of
        (Inl (c, v), h) \<Rightarrow> Throw c v (s\<lparr>heap := h\<rparr>)
      | (Inr None, h) \<Rightarrow> Done 0 (s\<lparr>heap := h, stack := [Table t]\<rparr>)
      | (Inr (Some (k', v')), h) \<Rightarrow> Done 2 (s\<lparr>heap := h, stack := [Table t, k', v']\<rparr>))"
  by (simp add: s_next_def lua_next_def idx_m2[where xs="[]"] engine_call_def
      split: prod.splits sum.splits option.splits)


lemma s_pushcclosure_run0:
  "stack s = [CFunction fn] \<Longrightarrow> s_pushcclosure env s = Done 1 (s\<lparr>stack := [CFunction fn]\<rparr>)"
  by (simp add: s_pushcclosure_def lua_tocfunction_def idx_m1 pop_1[where xs="[]"]
      lua_pushcclosure_def lua_gettop_def push_def)

lemma s_pushcclosure_run:
  assumes "stack s = ups @ [CFunction fn]" "ups \<noteq> []" "int (length ups) \<le> MAXUPVAL"
  shows "s_pushcclosure env s =
     (case e_newcclosure env (heap s) of
        (Inl (c, v), h) \<Rightarrow> Throw c v (s\<lparr>stack := ups, heap := h\<rparr>)
      | (Inr u, h) \<Rightarrow> Done 1 (s\<lparr>heap := h, stack := [CClosure fn ups]\<rparr>))"
  using assms
  by (simp add: s_pushcclosure_def lua_tocfunction_def idx_m1 pop_1[where xs="ups"]
      lua_pushcclosure_def lua_gettop_def engine_call_def split: prod.splits sum.splits)

lemma s_pushlstring_run:
  "stack s = [LightUserdata p, Integer len] \<Longrightarrow> s_pushlstring env s =
     (case e_pushlstring env p len (heap s) of
        (Inl (c, v), h) \<Rightarrow> Throw c v (s\<lparr>stack := [], heap := h\<rparr>)
      | (Inr w, h) \<Rightarrow> Done 1 (s\<lparr>heap := h, stack := [w]\<rparr>))"
  by (simp add: s_pushlstring_def lua_touserdata_def lua_tointeger_def idx_m1 idx_m2[where xs="[]"]
      pop_2[where xs="[]"] lua_pushlstring_def engine_call_def push_def split: prod.splits sum.splits)

lemma s_pushstring_run:
  "stack s = [LightUserdata p] \<Longrightarrow> s_pushstring env s =
     (if p = 0 then Done 1 (s\<lparr>stack := [Nil]\<rparr>)
      else case e_pushstring env p (heap s) of
        (Inl (c, v), h) \<Rightarrow> Throw c v (s\<lparr>stack := [], heap := h\<rparr>)
      | (Inr w, h) \<Rightarrow> Done 1 (s\<lparr>heap := h, stack := [w]\<rparr>))"
  by (simp add: s_pushstring_def lua_touserdata_def idx_m1
      pop_1[where xs="[]"] lua_pushstring_def engine_call_def push_def split: prod.splits sum.splits)

lemma s_rawset_run:
  "stack s = [Table t, k, v] \<Longrightarrow> s_rawset env s =
     (case e_rawset env t k v (heap s) of
        (Inl (c, e), h) \<Rightarrow> Throw c e (s\<lparr>heap := h\<rparr>)
      | (Inr u, h) \<Rightarrow> Done 0 (s\<lparr>heap := h, stack := [Table t]\<rparr>))"
  by (simp add: s_rawset_def lua_rawset_def idx_m3[where xs="[]"] engine_call_def
      split: prod.splits sum.splits)

lemma s_settable_run:
  "stack s = [t, k, v] \<Longrightarrow> s_settable env s =
     (case e_settable env t k v (heap s) of
        (Inl (c, e), h) \<Rightarrow> Throw c e (s\<lparr>heap := h\<rparr>)
      | (Inr u, h) \<Rightarrow> Done 0 (s\<lparr>heap := h, stack := [t]\<rparr>))"
  by (simp add: s_settable_def lua_settable_def idx_m3[where xs="[]"] engine_call_def
      split: prod.splits sum.splits)

lemma cvt2str_not_string: "cvt2str v \<Longrightarrow> \<not> ttisstring v" "cvt2str v \<Longrightarrow> svalue v = None"
  "\<not> ttisstring v \<Longrightarrow> svalue v = None"
  by (cases v; simp add: cvt2str_def ttisstring_def svalue_def)+

lemma s_tostring_run:
  assumes "stack s = [v, LightUserdata p]" "p \<noteq> 0"
  shows "s_tostring env s =
     (if cvt2str v
      then case e_tostring env v (heap s) of
             (Inl (c, e), h) \<Rightarrow> Throw c e (s\<lparr>heap := h\<rparr>)
           | (Inr x, h) \<Rightarrow>
               Done 1 (s\<lparr>heap := h, mem := (mem s)(p := Some (CStr (Some x))), stack := [Str x]\<rparr>)
      else Done 1 (s\<lparr>mem := (mem s)(p := Some (CStr (svalue v))), stack := [v]\<rparr>))"
  using assms
  by (simp add: s_tostring_def lua_touserdata_def idx_m1 lua_tostring_def
      idx_m2[where xs="[]"] cvt2str_not_string engine_call_def setslot_def stackpos_def lua_gettop_def
      const_defs store_def pop_1 split: prod.splits sum.splits)

subsection \<open>The wrappers\<close>

lemmas push_defs = lua_pushcfunction_def lua_pushinteger_def lua_pushlightuserdata_def push_def

lemma plua_newtable_run:
  "plua_newtable env s =
     (case e_newtable env (heap s) of
        (Inl (c, v), h) \<Rightarrow> Done (status_of c) (s\<lparr>stack := stack s @ [errobj c v], heap := h\<rparr>)
      | (Inr t, h) \<Rightarrow> Done LUA_OK (s\<lparr>stack := stack s @ [Table t], heap := h\<rparr>))"
  by (simp add: plua_newtable_def push_defs
      pcall_cfun[where base="stack s" and args="[]"] call_cfunction_def s_newtable_run
      moveresults_def LUA_MULTRET_def split: prod.splits sum.splits)

lemma pluaL_len_run:
  assumes "valid_index s idx" "index2addr s idx = Some t" "len \<noteq> 0"
  shows "pluaL_len env s idx len =
     (case e_len env t (heap s) of
        (Inl (c, v), h) \<Rightarrow>
          Done (status_of c) (s\<lparr>stack := stack s @ [errobj c v], heap := h,
                                 addressed := addressed s @ [lua_absindex s idx]\<rparr>)
      | (Inr n, h) \<Rightarrow>
          Done LUA_OK (s\<lparr>heap := h, mem := (mem s)(len := Some (CInteger n)),
                          addressed := addressed s @ [lua_absindex s idx]\<rparr>))"
proof -
  have t: "index2addr (s\<lparr>stack := stack s @ [CFunction S_len]\<rparr>) (lua_absindex s idx) = Some t"
    using index2addr_abs_upd[OF assms(1), of "[CFunction S_len]"] assms by simp
  show ?thesis
    using assms(3)
    by (simp add: pluaL_len_def Let_def push_defs lua_pushvalue_def t
      pcall_cfun[where base="stack s" and args="[t]"] call_cfunction_def s_len_run
      moveresults_def LUA_MULTRET_def lua_tointeger_def idx_m1 store_def
      pop_1[where xs="stack s"] LUA_OK_def split: prod.splits sum.splits)
qed

lemma plua_geti_run:
  assumes "valid_index s idx" "index2addr s idx = Some t"
  shows "plua_geti env s idx i =
     (case e_gettable env t (Integer i) (heap s) of
        (Inl (c, v), h) \<Rightarrow>
          Done (status_of c) (s\<lparr>stack := stack s @ [errobj c v], heap := h,
                                 addressed := addressed s @ [lua_absindex s idx]\<rparr>)
      | (Inr w, h) \<Rightarrow>
          Done LUA_OK (s\<lparr>stack := stack s @ [w], heap := h,
                          addressed := addressed s @ [lua_absindex s idx]\<rparr>))"
proof -
  have t: "index2addr (s\<lparr>stack := stack s @ [CFunction S_geti]\<rparr>) (lua_absindex s idx) = Some t"
    using index2addr_abs_upd[OF assms(1), of "[CFunction S_geti]"] assms by simp
  show ?thesis
    by (simp add: plua_geti_def Let_def push_defs lua_pushvalue_def t
      pcall_cfun[where base="stack s" and args="[t, Integer i]"] call_cfunction_def
      s_geti_run[where t=t and k="Integer i"]
      moveresults_def LUA_MULTRET_def split: prod.splits sum.splits)
qed

lemma plua_gettable_run:
  assumes "valid_index s idx" "index2addr s idx = Some t" "stack s = xs @ [k]"
  shows "plua_gettable env s idx =
     (case e_gettable env t k (heap s) of
        (Inl (c, v), h) \<Rightarrow>
          Done (status_of c) (s\<lparr>stack := xs @ [errobj c v], heap := h,
                                 addressed := addressed s @ [lua_absindex s idx]\<rparr>)
      | (Inr w, h) \<Rightarrow>
          Done LUA_OK (s\<lparr>stack := xs @ [w], heap := h,
                          addressed := addressed s @ [lua_absindex s idx]\<rparr>))"
proof -
  have t: "index2addr (s\<lparr>stack := xs @ [k, CFunction S_gettable]\<rparr>) (lua_absindex s idx) = Some t"
    using index2addr_abs_upd[OF assms(1), of "[CFunction S_gettable]"] assms by simp
  show ?thesis
    using assms(3)
    by (simp add: plua_gettable_def Let_def push_defs lua_pushvalue_def t
      rotate_3[where xs=xs and a=k and b="CFunction S_gettable" and c=t]
      pcall_cfun[where base="xs" and args="[t, k]"] call_cfunction_def
      s_gettable_run[where t=t and k=k]
      moveresults_def LUA_MULTRET_def split: prod.splits sum.splits)
qed


lemma plua_newthread_run:
  assumes "thread \<noteq> 0"
  shows "plua_newthread env s thread =
     (case e_newthread env (heap s) of
        (Inl (c, v), h) \<Rightarrow> Done (status_of c) (s\<lparr>stack := stack s @ [errobj c v], heap := h\<rparr>)
      | (Inr a, h) \<Rightarrow>
          Done LUA_OK (s\<lparr>stack := stack s @ [Thread a], heap := h,
                          mem := (mem s)(thread := Some (CPtr a))\<rparr>))"
  using assms
  by (simp add: plua_newthread_def push_defs
      pcall_cfun[where base="stack s" and args="[]"] call_cfunction_def s_newthread_run
      moveresults_def LUA_MULTRET_def lua_tothread_def idx_m1 store_def LUA_OK_def
      split: prod.splits sum.splits)

lemma plua_newuserdata_run:
  assumes "ud \<noteq> 0"
  shows "plua_newuserdata env s sz ud =
     (case e_newuserdata env sz (heap s) of
        (Inl (c, v), h) \<Rightarrow> Done (status_of c) (s\<lparr>stack := stack s @ [errobj c v], heap := h\<rparr>)
      | (Inr a, h) \<Rightarrow>
          Done LUA_OK (s\<lparr>stack := stack s @ [Userdata a], heap := h,
                          mem := (mem s)(ud := Some (CPtr a))\<rparr>))"
  using assms
  by (simp add: plua_newuserdata_def push_defs
      pcall_cfun[where base="stack s" and args="[Integer sz]"] call_cfunction_def s_newuserdata_run
      moveresults_def LUA_MULTRET_def lua_touserdata_def idx_m1 store_def LUA_OK_def
      split: prod.splits sum.splits)

lemma plua_next_run:
  assumes "valid_index s idx" "index2addr s idx = Some (Table t)" "stack s = xs @ [k]" "res \<noteq> 0"
  shows "plua_next env s idx res =
     (case e_next env t k (heap s) of
        (Inl (c, v), h) \<Rightarrow>
          Done (status_of c) (s\<lparr>stack := xs @ [errobj c v], heap := h,
                                 addressed := addressed s @ [lua_absindex s idx]\<rparr>)
      | (Inr None, h) \<Rightarrow>
          Done LUA_OK (s\<lparr>stack := xs, heap := h, mem := (mem s)(res := Some (CInt 0)),
                          addressed := addressed s @ [lua_absindex s idx]\<rparr>)
      | (Inr (Some (k', v')), h) \<Rightarrow>
          Done LUA_OK (s\<lparr>stack := xs @ [k', v'], heap := h, mem := (mem s)(res := Some (CInt 1)),
                          addressed := addressed s @ [lua_absindex s idx]\<rparr>))"
proof -
  have t: "index2addr (s\<lparr>stack := xs @ [k, CFunction S_next]\<rparr>) (lua_absindex s idx) = Some (Table t)"
    using index2addr_abs_upd[OF assms(1), of "[CFunction S_next]"] assms by simp
  show ?thesis
    using assms(3,4)
    by (simp add: plua_next_def Let_def push_defs lua_pushvalue_def t
      rotate_3[where xs=xs and a=k and b="CFunction S_next" and c="Table t"]
      pcall_cfun[where base="xs" and args="[Table t, k]"] call_cfunction_def
      s_next_run[where t=t and k=k] lua_gettop_def store_def LUA_OK_def
      moveresults_def LUA_MULTRET_def split: prod.splits sum.splits option.splits)
qed

lemma plua_pushlstring_run:
  "plua_pushlstring env s p len =
     (case e_pushlstring env p len (heap s) of
        (Inl (c, v), h) \<Rightarrow> Done (status_of c) (s\<lparr>stack := stack s @ [errobj c v], heap := h\<rparr>)
      | (Inr w, h) \<Rightarrow> Done LUA_OK (s\<lparr>stack := stack s @ [w], heap := h\<rparr>))"
  by (simp add: plua_pushlstring_def push_defs
      pcall_cfun[where base="stack s" and args="[LightUserdata p, Integer len]"] call_cfunction_def
      s_pushlstring_run moveresults_def LUA_MULTRET_def split: prod.splits sum.splits)

lemma plua_pushstring_run:
  "plua_pushstring env s p =
     (if p = 0 then Done LUA_OK (s\<lparr>stack := stack s @ [Nil]\<rparr>)
      else case e_pushstring env p (heap s) of
        (Inl (c, v), h) \<Rightarrow> Done (status_of c) (s\<lparr>stack := stack s @ [errobj c v], heap := h\<rparr>)
      | (Inr w, h) \<Rightarrow> Done LUA_OK (s\<lparr>stack := stack s @ [w], heap := h\<rparr>))"
  by (simp add: plua_pushstring_def push_defs
      pcall_cfun[where base="stack s" and args="[LightUserdata p]"] call_cfunction_def
      s_pushstring_run moveresults_def LUA_MULTRET_def split: prod.splits sum.splits)

lemma plua_rawset_run:
  assumes "index2addr s idx = Some (Table t)" "stack s = xs @ [k, v]"
  shows "plua_rawset env s idx =
     (case e_rawset env t k v (heap s) of
        (Inl (c, e), h) \<Rightarrow>
          Done (status_of c) (s\<lparr>stack := xs @ [errobj c e], heap := h,
                                 addressed := addressed s @ [idx]\<rparr>)
      | (Inr u, h) \<Rightarrow>
          Done LUA_OK (s\<lparr>stack := xs, heap := h, addressed := addressed s @ [idx]\<rparr>))"
  using assms
  by (simp add: plua_rawset_def push_defs lua_pushvalue_def
      insert_3[where xs=xs and a=k and b=v and c="Table t"]
      insert_4[where xs=xs and a="Table t" and b=k and c=v and d="CFunction S_rawset"]
      pcall_cfun[where base="xs" and args="[Table t, k, v]"] call_cfunction_def
      s_rawset_run[where t=t and k=k and v=v]
      moveresults_def LUA_MULTRET_def split: prod.splits sum.splits)

lemma plua_settable_run:
  assumes "index2addr s idx = Some t" "stack s = xs @ [k, v]"
  shows "plua_settable env s idx =
     (case e_settable env t k v (heap s) of
        (Inl (c, e), h) \<Rightarrow>
          Done (status_of c) (s\<lparr>stack := xs @ [errobj c e], heap := h,
                                 addressed := addressed s @ [idx]\<rparr>)
      | (Inr u, h) \<Rightarrow>
          Done LUA_OK (s\<lparr>stack := xs, heap := h, addressed := addressed s @ [idx]\<rparr>))"
  using assms
  by (simp add: plua_settable_def push_defs lua_pushvalue_def
      insert_3[where xs=xs and a=k and b=v and c="t"]
      insert_4[where xs=xs and a="t" and b=k and c=v and d="CFunction S_settable"]
      pcall_cfun[where base="xs" and args="[t, k, v]"] call_cfunction_def
      s_settable_run[where t=t and k=k and v=v]
      moveresults_def LUA_MULTRET_def split: prod.splits sum.splits)

lemma plua_pushcclosure_run:
  assumes "stack s = xs @ ups" "int (length ups) = n" "n \<le> MAXUPVAL"
  shows "plua_pushcclosure env s fn n =
     (if ups = [] then Done LUA_OK (s\<lparr>stack := xs @ [CFunction fn]\<rparr>)
      else case e_newcclosure env (heap s) of
        (Inl (c, v), h) \<Rightarrow> Done (status_of c) (s\<lparr>stack := xs @ [errobj c v], heap := h\<rparr>)
      | (Inr u, h) \<Rightarrow> Done LUA_OK (s\<lparr>stack := xs @ [CClosure fn ups], heap := h\<rparr>))"
proof (cases "ups = []")
  case True
  then show ?thesis
    using assms
    by (simp add: plua_pushcclosure_def push_defs
        insert_1[where xs=xs and a="CFunction S_pushcclosure"]
        pcall_cfun[where base="xs" and args="[CFunction fn]"] call_cfunction_def
        s_pushcclosure_run0 moveresults_def LUA_MULTRET_def)
next
  case False
  then show ?thesis
    using assms
    by (simp add: plua_pushcclosure_def push_defs
        insert_n[where xs=xs and ups=ups and f="CFunction S_pushcclosure"]
        pcall_cfun[where base="xs" and args="ups @ [CFunction fn]"] call_cfunction_def
        s_pushcclosure_run[where ups=ups and fn=fn] moveresults_def LUA_MULTRET_def
        split: prod.splits sum.splits)
qed


lemma stackpos_abs:
  assumes "stackpos s idx = Some p"
  shows "lua_absindex s idx = int p + 1" "p < length (stack s)"
  using assms
  by (auto simp: stackpos_def lua_absindex_def lua_gettop_def split: if_splits)

lemma replace_abs:
  assumes "valid_index s idx" "stack S = stack s @ [w]" "upvalues S = upvalues s"
    "registry S = registry s"
  shows "lua_replace S (lua_absindex s idx) =
     Done () (S\<lparr>stack := stack (replaced s idx w), upvalues := upvalues (replaced s idx w),
                 registry := registry (replaced s idx w),
                 addressed := addressed S @ [lua_absindex s idx]\<rparr>)"
proof (cases "stackpos s idx")
  case (Some p)
  have sp: "stackpos (S\<lparr>addressed := addressed S @ [int p + 1]\<rparr>) (int p + 1) = Some p"
    using stackpos_abs[OF Some] assms(2) by (simp add: stackpos_def lua_gettop_def)
  show ?thesis
    using stackpos_abs[OF Some] assms(2-4) Some
    by (simp add: lua_replace_def lua_copy_def idx_m1 setslot_def sp replaced_def
        pop_1[where xs="(stack s)[p := w]"] list_update_append)
next
  case None
  then have ps: "ispseudo idx" "lua_absindex s idx = idx"
    using assms(1) by (auto simp: valid_index_def lua_absindex_def const_defs)
  have sp: "stackpos (S\<lparr>addressed := addressed S @ [idx]\<rparr>) idx = None"
    using ps by (simp add: stackpos_def const_defs)
  show ?thesis
    using None assms ps
    by (auto simp: valid_index_def lua_replace_def lua_copy_def idx_m1 setslot_def sp replaced_def
        pop_1[where xs="stack s"])
qed

lemma replaced_fields [simp]:
  "heap (replaced s idx w) = heap s" "mem (replaced s idx w) = mem s"
  "addressed (replaced s idx w) = addressed s" "lua_State.more (replaced s idx w) = lua_State.more s"
  by (simp_all add: replaced_def split: option.splits)

lemma plua_tostring_run:
  assumes "valid_index s idx" "index2addr s idx = Some v" "sp \<noteq> 0"
  shows "plua_tostring env s idx sp =
     (if cvt2str v
      then case e_tostring env v (heap s) of
             (Inl (c, e), h) \<Rightarrow>
               Done (status_of c) (s\<lparr>stack := stack s @ [errobj c e], heap := h,
                                      addressed := addressed s @ [lua_absindex s idx]\<rparr>)
           | (Inr x, h) \<Rightarrow>
               Done LUA_OK ((replaced s idx (Str x))\<lparr>heap := h,
                 mem := (mem s)(sp := Some (CStr (Some x))),
                 addressed := addressed s @ [lua_absindex s idx, lua_absindex s idx]\<rparr>)
      else Done LUA_OK ((replaced s idx v)\<lparr>mem := (mem s)(sp := Some (CStr (svalue v))),
             addressed := addressed s @ [lua_absindex s idx, lua_absindex s idx]\<rparr>))"
proof -
  have t: "index2addr (s\<lparr>stack := stack s @ [CFunction S_tostring]\<rparr>) (lua_absindex s idx) = Some v"
    using index2addr_abs_upd[OF assms(1), of "[CFunction S_tostring]"] assms by simp
  have r: "\<And>S w. stack S = stack s @ [w] \<Longrightarrow> upvalues S = upvalues s \<Longrightarrow> registry S = registry s \<Longrightarrow>
     lua_replace S (lua_absindex s idx) =
     Done () (S\<lparr>stack := stack (replaced s idx w), upvalues := upvalues (replaced s idx w),
                 registry := registry (replaced s idx w),
                 addressed := addressed S @ [lua_absindex s idx]\<rparr>)"
    using replace_abs[OF assms(1)] by blast
  have "plua_tostring env s idx sp =
     (if cvt2str v
      then case e_tostring env v (heap s) of
             (Inl (c, e), h) \<Rightarrow>
               Done (status_of c) (s\<lparr>stack := stack s @ [errobj c e], heap := h,
                                      addressed := addressed s @ [lua_absindex s idx]\<rparr>)
           | (Inr x, h) \<Rightarrow>
               Done LUA_OK (s\<lparr>stack := stack (replaced s idx (Str x)),
                 upvalues := upvalues (replaced s idx (Str x)),
                 registry := registry (replaced s idx (Str x)), heap := h,
                 mem := (mem s)(sp := Some (CStr (Some x))),
                 addressed := addressed s @ [lua_absindex s idx, lua_absindex s idx]\<rparr>)
      else Done LUA_OK (s\<lparr>stack := stack (replaced s idx v),
                 upvalues := upvalues (replaced s idx v),
                 registry := registry (replaced s idx v),
                 mem := (mem s)(sp := Some (CStr (svalue v))),
             addressed := addressed s @ [lua_absindex s idx, lua_absindex s idx]\<rparr>))"
    using assms(3)
    by (simp add: plua_tostring_def Let_def push_defs lua_pushvalue_def t
        pcall_cfun[where base="stack s" and args="[v, LightUserdata sp]"] call_cfunction_def
        s_tostring_run[where v=v and p=sp]
        moveresults_def LUA_MULTRET_def r LUA_OK_def split: prod.splits sum.splits)
  moreover have "\<And>w h m a. s\<lparr>stack := stack (replaced s idx w), upvalues := upvalues (replaced s idx w),
                 registry := registry (replaced s idx w), heap := h, mem := m, addressed := a\<rparr>
        = (replaced s idx w)\<lparr>heap := h, mem := m, addressed := a\<rparr>"
    by (rule lua_State.equality) simp_all
  moreover have "\<And>w m a. s\<lparr>stack := stack (replaced s idx w), upvalues := upvalues (replaced s idx w),
                 registry := registry (replaced s idx w), mem := m, addressed := a\<rparr>
        = (replaced s idx w)\<lparr>mem := m, addressed := a\<rparr>"
    by (rule lua_State.equality) simp_all
  ultimately show ?thesis by (simp only:)
qed

subsection \<open>The trampoline\<close>

lemma s_call_rust_run:
  assumes "upvalues s = LightUserdata cb # ups" "cb \<noteq> 0"
  shows "s_call_rust env s =
     (case host env cb s of
        (ret, s') \<Rightarrow>
          if ret = LUA_MULTRET then Done LUA_MULTRET s'
          else if ret = RCALL_STACK_ERR then luaL_error env s' ''stack overflow in rust callback''
          else if ret = RCALL_ERR then lua_error s'
          else Done ret s')"
  using assms
  by (simp add: s_call_rust_def lua_touserdata_def idx_up1[where u="LightUserdata cb" and us=ups])

lemma plua_pushrclosure_run:
  assumes "stack s = xs @ ups" "int (length ups) = n" "n + 1 \<le> MAXUPVAL"
  shows "plua_pushrclosure env s f n =
     (case e_newcclosure env (heap s) of
        (Inl (c, v), h) \<Rightarrow> Done (status_of c) (s\<lparr>stack := xs @ [errobj c v], heap := h\<rparr>)
      | (Inr u, h) \<Rightarrow>
          Done LUA_OK (s\<lparr>stack := xs @ [CClosure S_call_rust (LightUserdata f # ups)], heap := h\<rparr>))"
proof -
  have i: "lua_insert (s\<lparr>stack := xs @ ups @ [LightUserdata f]\<rparr>) (- n - 1)
             = Done () (s\<lparr>stack := xs @ LightUserdata f # ups\<rparr>)"
    using assms insert_n[where s="s\<lparr>stack := xs @ ups @ [LightUserdata f]\<rparr>" and xs=xs and ups=ups
        and f="LightUserdata f" and n=n]
    by simp
  have p: "plua_pushcclosure env (s\<lparr>stack := xs @ LightUserdata f # ups\<rparr>) S_call_rust (n + 1) =
     (case e_newcclosure env (heap s) of
        (Inl (c, v), h) \<Rightarrow> Done (status_of c) (s\<lparr>stack := xs @ [errobj c v], heap := h\<rparr>)
      | (Inr u, h) \<Rightarrow>
          Done LUA_OK (s\<lparr>stack := xs @ [CClosure S_call_rust (LightUserdata f # ups)], heap := h\<rparr>))"
    using assms plua_pushcclosure_run[where s="s\<lparr>stack := xs @ LightUserdata f # ups\<rparr>" and xs=xs
        and ups="LightUserdata f # ups" and n="n + 1" and env=env and fn=S_call_rust]
    by (simp split: prod.splits sum.splits)
  show ?thesis
    using assms(1)
    by (simp add: plua_pushrclosure_def push_defs i p)
qed

section \<open>The callback trampoline: result codes\<close>

text \<open>
  Claim C3. Whenever the host callback behind the trampoline returns a non-negative integer
  \<open>n\<close>, the trampoline returns exactly \<open>n\<close> to the engine: it does not raise, and the state
  it hands back is the one the callback left, so the stack is not changed further. The
  engine reads \<open>n\<close> as a count: a protected call of the trampoline closure that accepts any
  number of results succeeds with the top \<open>n\<close> values the callback left as its results.
\<close>

theorem trampoline_returns_count:
  assumes "upvalues s = LightUserdata cb # ups" "cb \<noteq> 0" "host env cb s = (n, s')" "0 \<le> n"
  shows "s_call_rust env s = Done n s'
       \<and> (n \<le> int (length (stack s'))
            \<and> stack S = base @ CClosure S_call_rust (LightUserdata cb # ups) # args
            \<and> s = S\<lparr>stack := args, upvalues := LightUserdata cb # ups\<rparr> \<longrightarrow>
            lua_pcall env S (int (length args)) LUA_MULTRET =
              Done LUA_OK (s'\<lparr>stack := base @ drop (length (stack s') - nat n) (stack s'),
                              upvalues := upvalues S\<rparr>))"
proof -
  have a: "s_call_rust env s = Done n s'"
    using assms by (simp add: s_call_rust_run[where cb=cb and ups=ups] const_defs)
  have b: "n \<le> int (length (stack s'))
            \<Longrightarrow> stack S = base @ CClosure S_call_rust (LightUserdata cb # ups) # args
            \<Longrightarrow> s = S\<lparr>stack := args, upvalues := LightUserdata cb # ups\<rparr> \<Longrightarrow>
            lua_pcall env S (int (length args)) LUA_MULTRET =
              Done LUA_OK (s'\<lparr>stack := base @ drop (length (stack s') - nat n) (stack s'),
                              upvalues := upvalues S\<rparr>)"
    using a assms(4)
    by (simp add: pcall_cclosure[where base=base and args=args and cf=S_call_rust
          and ups="LightUserdata cb # ups"] call_cfunction_def moveresults_def)
  show ?thesis using a b by simp
qed

theorem trampoline_returns_count_witness:
  "upvalues (frame0 [Str ''arg''] [LightUserdata 1]) = LightUserdata 1 # []
   \<and> (1::nat) \<noteq> 0
   \<and> host stub_engine 1 (frame0 [Str ''arg''] [LightUserdata 1])
       = (2, frame0 [Str ''arg'', Integer 1, Integer 2] [LightUserdata 1])
   \<and> (0::int) \<le> 2
   \<and> s_call_rust stub_engine (frame0 [Str ''arg''] [LightUserdata 1])
       = Done 2 (frame0 [Str ''arg'', Integer 1, Integer 2] [LightUserdata 1])
   \<and> (2::int) \<le> int (length (stack (frame0 [Str ''arg'', Integer 1, Integer 2] [LightUserdata 1])))
   \<and> stack (state0 [Integer 9, CClosure S_call_rust [LightUserdata 1], Str ''arg''])
       = [Integer 9] @ CClosure S_call_rust (LightUserdata 1 # []) # [Str ''arg'']
   \<and> lua_pcall stub_engine (state0 [Integer 9, CClosure S_call_rust [LightUserdata 1], Str ''arg''])
         (int (length [Str ''arg''])) LUA_MULTRET
       = Done LUA_OK (state0 [Integer 9, Integer 1, Integer 2])"
  using trampoline_returns_count[of "frame0 [Str ''arg''] [LightUserdata 1]" 1 "[]" stub_engine 2
      "frame0 [Str ''arg'', Integer 1, Integer 2] [LightUserdata 1]"
      "state0 [Integer 9, CClosure S_call_rust [LightUserdata 1], Str ''arg'']" "[Integer 9]"
      "[Str ''arg'']"]
  by (simp add: stub_engine_def frame0_def state0_def)

text \<open>
  Claim C10. A negative result code that is none of the three reserved markers (\<open>-1\<close>
  variable results, \<open>-2\<close> stack overflow, \<open>-3\<close> rethrow), such as \<open>-4\<close>, is neither
  rejected nor converted: the trampoline returns it to the engine unchanged, as it does a
  result count, and leaves the state as the callback left it.
\<close>

theorem trampoline_passes_unreserved_negative:
  assumes "upvalues s = LightUserdata cb # ups" "cb \<noteq> 0" "host env cb s = (n, s')"
    and "n < 0" "n \<noteq> LUA_MULTRET" "n \<noteq> RCALL_STACK_ERR" "n \<noteq> RCALL_ERR"
  shows "s_call_rust env s = Done n s'"
  using assms by (simp add: s_call_rust_run[where cb=cb and ups=ups])

theorem trampoline_passes_unreserved_negative_witness:
  "upvalues (frame0 [] [LightUserdata 4]) = LightUserdata 4 # []
   \<and> (4::nat) \<noteq> 0
   \<and> host stub_engine 4 (frame0 [] [LightUserdata 4]) = (- 4, frame0 [] [LightUserdata 4])
   \<and> (- 4::int) < 0 \<and> (- 4::int) \<noteq> LUA_MULTRET \<and> (- 4::int) \<noteq> RCALL_STACK_ERR
   \<and> (- 4::int) \<noteq> RCALL_ERR
   \<and> s_call_rust stub_engine (frame0 [] [LightUserdata 4]) = Done (- 4) (frame0 [] [LightUserdata 4])"
  using trampoline_passes_unreserved_negative[of "frame0 [] [LightUserdata 4]" 4 "[]" stub_engine "- 4"
      "frame0 [] [LightUserdata 4]"]
  by (simp add: stub_engine_def frame0_def state0_def const_defs)

section \<open>The callback trampoline: raises and registration\<close>

lemma luaL_error_run:
  "luaL_error env s msg =
     Throw ERRRUN (Str (luaL_where env s 1 @ msg)) (s\<lparr>stack := stack s @ [Str (luaL_where env s 1 @ msg)]\<rparr>)"
  by (simp add: luaL_error_def push_def lua_error_def)

text \<open>
  Claim C4. When the host callback returns the stack-overflow marker, the trampoline raises
  a runtime error through \<^verbatim>\<open>luaL_error\<close> with the fixed message
  \<^verbatim>\<open>stack overflow in rust callback\<close> (the literal of the code; the claim names it without
  the host language). The value raised is that message after the position of the
  trampoline's caller, which is empty unless the caller is a Lua function. That is the only
  error value the trampoline makes itself: whenever it raises, either the callback returned
  the overflow marker and the value is that message, or it returned the rethrow marker and
  the value is the one the callback left on the top of the stack. A protected call of the
  trampoline closure then returns a failure status and leaves the message as the error
  value, and the message contains \<^verbatim>\<open>stack overflow\<close> whatever the position is.
\<close>

theorem overflow_marker_raises_fixed_error:
  assumes "cb \<noteq> 0" "upvalues s = LightUserdata cb # ups" "host env cb s = (ret, s')"
  shows "(ret = RCALL_STACK_ERR \<longrightarrow>
            s_call_rust env s =
              Throw ERRRUN (Str (luaL_where env s' 1 @ ''stack overflow in rust callback''))
                (s'\<lparr>stack := stack s'
                       @ [Str (luaL_where env s' 1 @ ''stack overflow in rust callback'')]\<rparr>))
       \<and> (\<forall>c v s''. s_call_rust env s = Throw c v s'' \<longrightarrow>
             (ret = RCALL_STACK_ERR
              \<and> v = Str (luaL_where env s' 1 @ ''stack overflow in rust callback''))
             \<or> (ret = RCALL_ERR \<and> stack s' \<noteq> [] \<and> v = last (stack s')))
       \<and> (ret = RCALL_STACK_ERR \<and> LUA_MULTRET \<le> nres
            \<and> stack S = base @ CClosure S_call_rust (LightUserdata cb # ups) # args
            \<and> s = S\<lparr>stack := args, upvalues := LightUserdata cb # ups\<rparr> \<longrightarrow>
            lua_pcall env S (int (length args)) nres =
              Done (status_of ERRRUN)
                (s'\<lparr>stack := base @ [Str (luaL_where env s' 1 @ ''stack overflow in rust callback'')],
                    upvalues := upvalues S\<rparr>)
            \<and> status_of ERRRUN \<noteq> LUA_OK)
       \<and> sublist ''stack overflow'' (luaL_where env s' 1 @ ''stack overflow in rust callback'')"
proof -
  have run: "s_call_rust env s =
     (if ret = LUA_MULTRET then Done LUA_MULTRET s'
      else if ret = RCALL_STACK_ERR then luaL_error env s' ''stack overflow in rust callback''
      else if ret = RCALL_ERR then lua_error s'
      else Done ret s')"
    using assms by (simp add: s_call_rust_run[where cb=cb and ups=ups])
  have a: "ret = RCALL_STACK_ERR \<Longrightarrow>
            s_call_rust env s =
              Throw ERRRUN (Str (luaL_where env s' 1 @ ''stack overflow in rust callback''))
                (s'\<lparr>stack := stack s'
                       @ [Str (luaL_where env s' 1 @ ''stack overflow in rust callback'')]\<rparr>)"
    by (simp add: run luaL_error_run const_defs)
  have b: "\<And>c v s''. s_call_rust env s = Throw c v s'' \<Longrightarrow>
             (ret = RCALL_STACK_ERR
              \<and> v = Str (luaL_where env s' 1 @ ''stack overflow in rust callback''))
             \<or> (ret = RCALL_ERR \<and> stack s' \<noteq> [] \<and> v = last (stack s'))"
    by (auto simp: run luaL_error_run lua_error_def split: if_splits)
  have c: "ret = RCALL_STACK_ERR \<Longrightarrow> LUA_MULTRET \<le> nres
            \<Longrightarrow> stack S = base @ CClosure S_call_rust (LightUserdata cb # ups) # args
            \<Longrightarrow> s = S\<lparr>stack := args, upvalues := LightUserdata cb # ups\<rparr> \<Longrightarrow>
            lua_pcall env S (int (length args)) nres =
              Done (status_of ERRRUN)
                (s'\<lparr>stack := base @ [Str (luaL_where env s' 1 @ ''stack overflow in rust callback'')],
                    upvalues := upvalues S\<rparr>)"
    using a
    by (simp add: pcall_cclosure[where base=base and args=args and cf=S_call_rust
          and ups="LightUserdata cb # ups"] call_cfunction_def)
  have d: "sublist ''stack overflow'' (luaL_where env s' 1 @ ''stack overflow in rust callback'')"
    using sublist_appendI[of "''stack overflow''" "luaL_where env s' 1" "'' in rust callback''"]
    by simp
  show ?thesis using a b c d by (simp add: LUA_OK_def)
qed

theorem overflow_marker_raises_fixed_error_witness:
  "(2::nat) \<noteq> 0
   \<and> upvalues (frame0 [Str ''arg''] [LightUserdata 2]) = LightUserdata 2 # []
   \<and> host stub_engine 2 (frame0 [Str ''arg''] [LightUserdata 2])
       = (RCALL_STACK_ERR, frame0 [Str ''arg''] [LightUserdata 2])
   \<and> s_call_rust stub_engine (frame0 [Str ''arg''] [LightUserdata 2])
       = Throw ERRRUN (Str ''stack overflow in rust callback'')
           (frame0 [Str ''arg'', Str ''stack overflow in rust callback''] [LightUserdata 2])
   \<and> LUA_MULTRET \<le> 1
   \<and> stack (state0 [Integer 9, CClosure S_call_rust [LightUserdata 2], Str ''arg''])
       = [Integer 9] @ CClosure S_call_rust (LightUserdata 2 # []) # [Str ''arg'']
   \<and> lua_pcall stub_engine (state0 [Integer 9, CClosure S_call_rust [LightUserdata 2], Str ''arg''])
         (int (length [Str ''arg''])) 1
       = Done 2 (state0 [Integer 9, Str ''stack overflow in rust callback''])
   \<and> (5::nat) \<noteq> 0
   \<and> upvalues (tstate [Str ''arg''] [LightUserdata 5] []) = LightUserdata 5 # []
   \<and> host table_engine 5 (tstate [Str ''arg''] [LightUserdata 5] [])
       = (RCALL_STACK_ERR, tstate [Str ''arg''] [LightUserdata 5] [])
   \<and> stack (tstate [Integer 9, CClosure S_call_rust [LightUserdata 5], Str ''arg''] [] [])
       = [Integer 9] @ CClosure S_call_rust (LightUserdata 5 # []) # [Str ''arg'']
   \<and> lua_pcall table_engine
         (tstate [Integer 9, CClosure S_call_rust [LightUserdata 5], Str ''arg''] [] [])
         (int (length [Str ''arg''])) 1
       = Done 2 (tstate [Integer 9, Str ''chunk:1: stack overflow in rust callback''] [] [])
   \<and> sublist ''stack overflow'' ''chunk:1: stack overflow in rust callback''"
proof -
  have h1: "(2::nat) \<noteq> 0"
    "upvalues (frame0 [Str ''arg''] [LightUserdata 2]) = LightUserdata 2 # []"
    "host stub_engine 2 (frame0 [Str ''arg''] [LightUserdata 2])
       = (RCALL_STACK_ERR, frame0 [Str ''arg''] [LightUserdata 2])"
    by (simp_all add: stub_engine_def frame0_def state0_def)
  have g1: "LUA_MULTRET \<le> 1"
    "stack (state0 [Integer 9, CClosure S_call_rust [LightUserdata 2], Str ''arg''])
       = [Integer 9] @ CClosure S_call_rust (LightUserdata 2 # []) # [Str ''arg'']"
    by (simp_all add: state0_def LUA_MULTRET_def)
  note t1 = overflow_marker_raises_fixed_error[OF h1, where nres=1
      and S="state0 [Integer 9, CClosure S_call_rust [LightUserdata 2], Str ''arg'']"
      and base="[Integer 9]" and args="[Str ''arg'']"]
  have a1: "s_call_rust stub_engine (frame0 [Str ''arg''] [LightUserdata 2])
       = Throw ERRRUN (Str ''stack overflow in rust callback'')
           (frame0 [Str ''arg'', Str ''stack overflow in rust callback''] [LightUserdata 2])"
    using t1[THEN conjunct1]
    by (simp add: luaL_where_def stub_engine_def frame0_def state0_def)
  have c1: "lua_pcall stub_engine (state0 [Integer 9, CClosure S_call_rust [LightUserdata 2], Str ''arg''])
         (int (length [Str ''arg''])) 1
       = Done 2 (state0 [Integer 9, Str ''stack overflow in rust callback''])"
    using t1[THEN conjunct2, THEN conjunct2, THEN conjunct1] g1
    by (simp add: luaL_where_def stub_engine_def frame0_def state0_def)
  have h2: "(5::nat) \<noteq> 0"
    "upvalues (tstate [Str ''arg''] [LightUserdata 5] []) = LightUserdata 5 # []"
    "host table_engine 5 (tstate [Str ''arg''] [LightUserdata 5] [])
       = (RCALL_STACK_ERR, tstate [Str ''arg''] [LightUserdata 5] [])"
    by (simp_all add: table_engine_def tstate_def)
  have g2: "stack (tstate [Integer 9, CClosure S_call_rust [LightUserdata 5], Str ''arg''] [] [])
       = [Integer 9] @ CClosure S_call_rust (LightUserdata 5 # []) # [Str ''arg'']"
    by (simp add: tstate_def)
  note t2 = overflow_marker_raises_fixed_error[OF h2, where nres=1
      and S="tstate [Integer 9, CClosure S_call_rust [LightUserdata 5], Str ''arg''] [] []"
      and base="[Integer 9]" and args="[Str ''arg'']"]
  have c2: "lua_pcall table_engine
         (tstate [Integer 9, CClosure S_call_rust [LightUserdata 5], Str ''arg''] [] [])
         (int (length [Str ''arg''])) 1
       = Done 2 (tstate [Integer 9, Str ''chunk:1: stack overflow in rust callback''] [] [])"
    using t2[THEN conjunct2, THEN conjunct2, THEN conjunct1] g1(1) g2
    by (simp add: luaL_where_def table_engine_def tstate_def)
  have d2: "sublist ''stack overflow'' ''chunk:1: stack overflow in rust callback''"
    using t2[THEN conjunct2, THEN conjunct2, THEN conjunct2]
    by (simp add: luaL_where_def table_engine_def)
  show ?thesis
    by (intro conjI h1 g1 a1 c1 h2 g2 c2 d2)
qed

text \<open>
  Claim C5. When the host callback returns the rethrow marker with an error value on the
  top of the stack, the trampoline raises that very value, and a protected call of the
  trampoline closure fails with a runtime-error status and leaves the value, unchanged and
  unwrapped, as the single value where the closure and its arguments were.
\<close>

theorem rethrow_marker_raises_host_value:
  assumes "cb \<noteq> 0" "upvalues s = LightUserdata cb # ups" "host env cb s = (RCALL_ERR, s')"
    and "stack s' = ys @ [e]"
  shows "s_call_rust env s = Throw ERRRUN e s'
       \<and> errobj ERRRUN e = e
       \<and> (LUA_MULTRET \<le> nres
            \<and> stack S = base @ CClosure S_call_rust (LightUserdata cb # ups) # args
            \<and> s = S\<lparr>stack := args, upvalues := LightUserdata cb # ups\<rparr> \<longrightarrow>
            lua_pcall env S (int (length args)) nres =
              Done (status_of ERRRUN) (s'\<lparr>stack := base @ [e], upvalues := upvalues S\<rparr>)
            \<and> status_of ERRRUN \<noteq> LUA_OK)"
proof -
  have a: "s_call_rust env s = Throw ERRRUN e s'"
    using assms by (simp add: s_call_rust_run[where cb=cb and ups=ups] lua_error_def const_defs)
  have c: "LUA_MULTRET \<le> nres
            \<Longrightarrow> stack S = base @ CClosure S_call_rust (LightUserdata cb # ups) # args
            \<Longrightarrow> s = S\<lparr>stack := args, upvalues := LightUserdata cb # ups\<rparr> \<Longrightarrow>
            lua_pcall env S (int (length args)) nres =
              Done (status_of ERRRUN) (s'\<lparr>stack := base @ [e], upvalues := upvalues S\<rparr>)"
    using a
    by (simp add: pcall_cclosure[where base=base and args=args and cf=S_call_rust
          and ups="LightUserdata cb # ups"] call_cfunction_def)
  show ?thesis using a c by (simp add: LUA_OK_def)
qed

theorem rethrow_marker_raises_host_value_witness:
  "(3::nat) \<noteq> 0
   \<and> upvalues (frame0 [Str ''arg''] [LightUserdata 3]) = LightUserdata 3 # []
   \<and> host stub_engine 3 (frame0 [Str ''arg''] [LightUserdata 3])
       = (RCALL_ERR, frame0 [Str ''arg'', Str ''boom''] [LightUserdata 3])
   \<and> stack (frame0 [Str ''arg'', Str ''boom''] [LightUserdata 3]) = [Str ''arg''] @ [Str ''boom'']
   \<and> s_call_rust stub_engine (frame0 [Str ''arg''] [LightUserdata 3])
       = Throw ERRRUN (Str ''boom'') (frame0 [Str ''arg'', Str ''boom''] [LightUserdata 3])
   \<and> LUA_MULTRET \<le> 1
   \<and> stack (state0 [Integer 9, CClosure S_call_rust [LightUserdata 3], Str ''arg''])
       = [Integer 9] @ CClosure S_call_rust (LightUserdata 3 # []) # [Str ''arg'']
   \<and> lua_pcall stub_engine (state0 [Integer 9, CClosure S_call_rust [LightUserdata 3], Str ''arg''])
         (int (length [Str ''arg''])) 1
       = Done 2 (state0 [Integer 9, Str ''boom''])"
  using rethrow_marker_raises_host_value[of 3 "frame0 [Str ''arg''] [LightUserdata 3]" "[]"
      stub_engine "frame0 [Str ''arg'', Str ''boom''] [LightUserdata 3]" "[Str ''arg'']" "Str ''boom''" 1
      "state0 [Integer 9, CClosure S_call_rust [LightUserdata 3], Str ''arg'']" "[Integer 9]"
      "[Str ''arg'']"]
  by (simp add: stub_engine_def frame0_def state0_def const_defs)


text \<open>
  Claim C6. Registering a trampoline-backed callable with \<open>n\<close> captured values on the top
  of the stack puts the host function pointer, as a light userdata, below those values and
  delegates to the protected closure creation with \<open>n + 1\<close> upvalues; on success the new
  closure is the trampoline with the pointer as its first upvalue, ahead of the caller's
  values. When that closure is invoked, the trampoline reads the pointer from upvalue 1 and
  calls the host function at that address.
\<close>

theorem pushrclosure_hides_callback:
  assumes "stack s = xs @ ups" "int (length ups) = n" "n + 1 \<le> MAXUPVAL"
  shows "plua_pushrclosure env s f n =
           plua_pushcclosure env (s\<lparr>stack := xs @ LightUserdata f # ups\<rparr>) S_call_rust (n + 1)
       \<and> plua_pushrclosure env s f n =
           (case e_newcclosure env (heap s) of
              (Inl (c, v), h) \<Rightarrow> Done (status_of c) (s\<lparr>stack := xs @ [errobj c v], heap := h\<rparr>)
            | (Inr u, h) \<Rightarrow>
                Done LUA_OK
                  (s\<lparr>stack := xs @ [CClosure S_call_rust (LightUserdata f # ups)], heap := h\<rparr>))
       \<and> lua_touserdata (fr\<lparr>upvalues := LightUserdata f # ups\<rparr>) (lua_upvalueindex 1)
           = Done f (fr\<lparr>upvalues := LightUserdata f # ups\<rparr>)
       \<and> (f \<noteq> 0 \<longrightarrow>
            luaD_call env (CClosure S_call_rust (LightUserdata f # ups)) fr =
              (case host env f (fr\<lparr>upvalues := LightUserdata f # ups\<rparr>) of
                 (ret, s') \<Rightarrow>
                   if ret = LUA_MULTRET then Done LUA_MULTRET s'
                   else if ret = RCALL_STACK_ERR then luaL_error env s' ''stack overflow in rust callback''
                   else if ret = RCALL_ERR then lua_error s'
                   else Done ret s'))"
proof -
  have i: "lua_insert (s\<lparr>stack := xs @ ups @ [LightUserdata f]\<rparr>) (- n - 1)
             = Done () (s\<lparr>stack := xs @ LightUserdata f # ups\<rparr>)"
    using assms insert_n[where s="s\<lparr>stack := xs @ ups @ [LightUserdata f]\<rparr>" and xs=xs and ups=ups
        and f="LightUserdata f" and n=n]
    by simp
  have a: "plua_pushrclosure env s f n =
           plua_pushcclosure env (s\<lparr>stack := xs @ LightUserdata f # ups\<rparr>) S_call_rust (n + 1)"
    using assms(1) by (simp add: plua_pushrclosure_def push_defs i)
  have d: "f \<noteq> 0 \<Longrightarrow>
            luaD_call env (CClosure S_call_rust (LightUserdata f # ups)) fr =
              (case host env f (fr\<lparr>upvalues := LightUserdata f # ups\<rparr>) of
                 (ret, s') \<Rightarrow>
                   if ret = LUA_MULTRET then Done LUA_MULTRET s'
                   else if ret = RCALL_STACK_ERR then luaL_error env s' ''stack overflow in rust callback''
                   else if ret = RCALL_ERR then lua_error s'
                   else Done ret s')"
    by (simp add: luaD_call_def call_cfunction_def
        s_call_rust_run[where cb=f and ups=ups])
  have c: "lua_touserdata (fr\<lparr>upvalues := LightUserdata f # ups\<rparr>) (lua_upvalueindex 1)
           = Done f (fr\<lparr>upvalues := LightUserdata f # ups\<rparr>)"
    by (simp add: lua_touserdata_def idx_up1[where u="LightUserdata f" and us=ups])
  show ?thesis
    using a plua_pushrclosure_run[OF assms, of env f] c d by simp
qed

theorem pushrclosure_hides_callback_witness:
  "stack (state0 [Integer 9, Str ''u1'', Str ''u2'']) = [Integer 9] @ [Str ''u1'', Str ''u2'']
   \<and> int (length [Str ''u1'', Str ''u2'']) = 2
   \<and> (2::int) + 1 \<le> MAXUPVAL
   \<and> plua_pushrclosure stub_engine (state0 [Integer 9, Str ''u1'', Str ''u2'']) 1 2
       = Done LUA_OK ((state0 [Integer 9,
            CClosure S_call_rust [LightUserdata 1, Str ''u1'', Str ''u2'']])\<lparr>heap := 2\<rparr>)
   \<and> (1::nat) \<noteq> 0
   \<and> luaD_call stub_engine (CClosure S_call_rust [LightUserdata 1, Str ''u1'', Str ''u2''])
         (state0 [Str ''arg''])
       = Done 2 (frame0 [Str ''arg'', Integer 1, Integer 2] [LightUserdata 1, Str ''u1'', Str ''u2''])"
proof -
  have h: "stack (state0 [Integer 9, Str ''u1'', Str ''u2'']) = [Integer 9] @ [Str ''u1'', Str ''u2'']"
    "int (length [Str ''u1'', Str ''u2'']) = 2" "(2::int) + 1 \<le> MAXUPVAL"
    by (simp_all add: state0_def const_defs)
  note t = pushrclosure_hides_callback[OF h, of stub_engine 1 "state0 [Str ''arg'']"]
  have r: "plua_pushrclosure stub_engine (state0 [Integer 9, Str ''u1'', Str ''u2'']) 1 2
       = Done LUA_OK ((state0 [Integer 9,
            CClosure S_call_rust [LightUserdata 1, Str ''u1'', Str ''u2'']])\<lparr>heap := 2\<rparr>)"
    using t[THEN conjunct2, THEN conjunct1] by (simp add: stub_engine_def state0_def)
  have c: "luaD_call stub_engine (CClosure S_call_rust [LightUserdata 1, Str ''u1'', Str ''u2''])
         (state0 [Str ''arg''])
       = Done 2 (frame0 [Str ''arg'', Integer 1, Integer 2] [LightUserdata 1, Str ''u1'', Str ''u2''])"
    using t[THEN conjunct2, THEN conjunct2, THEN conjunct2]
    by (simp add: stub_engine_def state0_def frame0_def const_defs)
  show ?thesis using h r c by simp
qed

section \<open>The protected operations: stack shape and output parameters\<close>

lemma valid_index_readable: "valid_index s idx \<Longrightarrow> \<exists>v. index2addr s idx = Some v"
  by (auto simp: valid_index_def index2addr_def stackpos_def lua_gettop_def const_defs Let_def
      split: if_splits)

text \<open>
  Claim C2, as stated, fails: \<^verbatim>\<open>plua_newuserdata\<close> does not pop the created block. On the
  empty stack, with an engine whose allocation succeeds, the call returns success, stores
  the block's address through the output parameter and leaves the block on the stack, so
  the height is one more than at entry.
\<close>

theorem newuserdata_keeps_block_counterexample:
  "(case plua_newuserdata stub_engine (state0 []) 16 7 of
      Done st s' \<Rightarrow>
        st = LUA_OK \<and> stack s' = [Userdata 201] \<and> mem s' 7 = Some (CPtr 201)
        \<and> lua_gettop s' = lua_gettop (state0 []) + 1 \<and> lua_gettop s' \<noteq> lua_gettop (state0 [])
    | _ \<Rightarrow> False)"
  by (simp add: plua_newuserdata_run stub_engine_def state0_def lua_gettop_def)

text \<open>
  Claim C2, amended. \<^verbatim>\<open>plua_newuserdata\<close> always returns a status. On success the created
  block is the single value added on the top of the stack, the address stored through the
  output parameter is the address of that block, and the stack height is the height at
  entry plus one (the block is left on the stack, as \<^verbatim>\<open>plua_newthread\<close> leaves the thread).
\<close>

theorem newuserdata_leaves_block:
  assumes "ud \<noteq> 0"
  shows "\<exists>st s'. plua_newuserdata env s sz ud = Done st s'
           \<and> (st = LUA_OK \<longrightarrow>
                (\<exists>a. stack s' = stack s @ [Userdata a] \<and> mem s' = (mem s)(ud := Some (CPtr a)))
                \<and> lua_gettop s' = lua_gettop s + 1)"
  using assms
  by (auto simp: plua_newuserdata_run lua_gettop_def split: prod.splits sum.splits)

theorem newuserdata_leaves_block_witness:
  "(7::nat) \<noteq> 0
   \<and> (\<exists>st s'. plua_newuserdata stub_engine (state0 []) 16 7 = Done st s'
         \<and> st = LUA_OK \<and> stack s' = stack (state0 []) @ [Userdata 201]
         \<and> mem s' = (mem (state0 []))(7 := Some (CPtr 201))
         \<and> lua_gettop s' = lua_gettop (state0 []) + 1)"
  using newuserdata_leaves_block[of 7 stub_engine "state0 []" 16]
  by (simp add: plua_newuserdata_run stub_engine_def state0_def lua_gettop_def)

text \<open>
  Claim C9. For the operations with a scalar output parameter (length, thread creation,
  userdata creation, the iteration flag, string coercion) the call returns a status, and
  the output parameter is written exactly when the status is success: on success the cell
  it points to holds a value and no other cell has changed, on any failure status the
  native memory is as it was.
\<close>

theorem output_written_iff_success:
  "(valid_index s idx \<and> out \<noteq> 0 \<longrightarrow> out_written s out (pluaL_len env s idx out))
   \<and> (out \<noteq> 0 \<longrightarrow> out_written s out (plua_newthread env s out))
   \<and> (out \<noteq> 0 \<longrightarrow> out_written s out (plua_newuserdata env s sz out))
   \<and> (valid_index s idx \<and> index2addr s idx = Some (Table t) \<and> stack s = xs @ [k] \<and> out \<noteq> 0 \<longrightarrow>
        out_written s out (plua_next env s idx out))
   \<and> (valid_index s idx \<and> out \<noteq> 0 \<longrightarrow> out_written s out (plua_tostring env s idx out))"
proof -
  have len: "out_written s out (pluaL_len env s idx out)" if vi: "valid_index s idx" and nz: "out \<noteq> 0"
  proof -
    obtain v where "index2addr s idx = Some v" using valid_index_readable vi by blast
    then show ?thesis using vi nz
      by (simp add: pluaL_len_run out_written_def split: prod.splits sum.splits)
  qed
  have thr: "out_written s out (plua_newthread env s out)" if "out \<noteq> 0"
    using that by (simp add: plua_newthread_run out_written_def split: prod.splits sum.splits)
  have ud: "out_written s out (plua_newuserdata env s sz out)" if "out \<noteq> 0"
    using that by (simp add: plua_newuserdata_run out_written_def split: prod.splits sum.splits)
  have nxt: "out_written s out (plua_next env s idx out)"
    if "valid_index s idx" "index2addr s idx = Some (Table t)" "stack s = xs @ [k]" "out \<noteq> 0"
    using that
    by (simp add: plua_next_run[where t=t and xs=xs and k=k] out_written_def
        split: prod.splits sum.splits option.splits)
  have ts: "out_written s out (plua_tostring env s idx out)" if vi: "valid_index s idx" and nz: "out \<noteq> 0"
  proof -
    obtain v where "index2addr s idx = Some v" using valid_index_readable vi by blast
    then show ?thesis using vi nz
      by (simp add: plua_tostring_run out_written_def split: prod.splits sum.splits)
  qed
  show ?thesis using len thr ud nxt ts by blast
qed


theorem output_written_iff_success_witness:
  "valid_index (state0 [Table 0, Nil]) 1 \<and> (7::nat) \<noteq> 0
   \<and> index2addr (state0 [Table 0, Nil]) 1 = Some (Table 0)
   \<and> stack (state0 [Table 0, Nil]) = [Table 0] @ [Nil]
   \<and> out_written (state0 [Table 0, Nil]) 7 (pluaL_len stub_engine (state0 [Table 0, Nil]) 1 7)
   \<and> out_written (state0 [Table 0, Nil]) 7 (plua_newthread stub_engine (state0 [Table 0, Nil]) 7)
   \<and> out_written (state0 [Table 0, Nil]) 7 (plua_newuserdata stub_engine (state0 [Table 0, Nil]) 16 7)
   \<and> out_written (state0 [Table 0, Nil]) 7 (plua_next stub_engine (state0 [Table 0, Nil]) 1 7)
   \<and> out_written (state0 [Table 0, Nil]) 7 (plua_tostring stub_engine (state0 [Table 0, Nil]) 1 7)"
proof -
  have h: "valid_index (state0 [Table 0, Nil]) 1" "(7::nat) \<noteq> 0"
    "index2addr (state0 [Table 0, Nil]) 1 = Some (Table 0)"
    "stack (state0 [Table 0, Nil]) = [Table 0] @ [Nil]"
    by (simp_all add: valid_index_def stackpos_def index2addr_def lua_gettop_def state0_def)
  show ?thesis
    using h output_written_iff_success[where s="state0 [Table 0, Nil]" and idx=1 and out=7
        and env=stub_engine and sz=16 and t=0 and xs="[Table 0]" and k=Nil]
    by blast
qed

text \<open>
  Claim C1. Each of the thirteen protected operations, called with the operands the
  operation expects (a valid index, a non-null output pointer, the key or the key and value
  or the upvalues on the top of the stack), returns an integer status and leaves the stack
  in one of two shapes. On success the caller's region under the operands is as it was and
  exactly the declared results are above it: one value for the pushes, the gets and the
  creations, none for the length and the sets, a key and a value or nothing for the
  iteration step; the string coercion works in place and keeps the height, changing at
  most the slot the index denotes. On failure exactly one value, the error value, is above
  the caller's region, and the operands are gone.
\<close>

theorem protected_operations_two_shapes:
  "returns_shape (stack s) [1] (plua_newtable env s)
   \<and> (valid_index s idx \<and> out \<noteq> 0 \<longrightarrow> returns_shape (stack s) [0] (pluaL_len env s idx out))
   \<and> (valid_index s idx \<longrightarrow> returns_shape (stack s) [1] (plua_geti env s idx i))
   \<and> (valid_index s idx \<and> stack s = xs @ [k] \<longrightarrow> returns_shape xs [1] (plua_gettable env s idx))
   \<and> (out \<noteq> 0 \<longrightarrow> returns_shape (stack s) [1] (plua_newthread env s out))
   \<and> (out \<noteq> 0 \<longrightarrow> returns_shape (stack s) [1] (plua_newuserdata env s sz out))
   \<and> (valid_index s idx \<and> index2addr s idx = Some (Table t) \<and> stack s = xs @ [k] \<and> out \<noteq> 0 \<longrightarrow>
        returns_shape xs [0, 2] (plua_next env s idx out))
   \<and> (stack s = ys @ ups \<and> int (length ups) = n \<and> n \<le> MAXUPVAL \<longrightarrow>
        returns_shape ys [1] (plua_pushcclosure env s fn n))
   \<and> returns_shape (stack s) [1] (plua_pushlstring env s p len)
   \<and> returns_shape (stack s) [1] (plua_pushstring env s p)
   \<and> (index2addr s idx = Some (Table t) \<and> stack s = zs @ [k', v'] \<longrightarrow>
        returns_shape zs [0] (plua_rawset env s idx))
   \<and> (index2addr s idx = Some w \<and> stack s = zs @ [k', v'] \<longrightarrow>
        returns_shape zs [0] (plua_settable env s idx))
   \<and> (valid_index s idx \<and> out \<noteq> 0 \<longrightarrow> inplace_shape s idx (plua_tostring env s idx out))"
proof -
  note sh = returns_shape_def
  have newtable: "returns_shape (stack s) [1] (plua_newtable env s)"
    by (simp add: plua_newtable_run sh split: prod.splits sum.splits)
  have len: "returns_shape (stack s) [0] (pluaL_len env s idx out)"
    if vi: "valid_index s idx" and nz: "out \<noteq> 0"
  proof -
    obtain v where "index2addr s idx = Some v" using valid_index_readable vi by blast
    then show ?thesis using vi nz
      by (simp add: pluaL_len_run sh split: prod.splits sum.splits)
  qed
  have geti: "returns_shape (stack s) [1] (plua_geti env s idx i)" if vi: "valid_index s idx"
  proof -
    obtain v where "index2addr s idx = Some v" using valid_index_readable vi by blast
    then show ?thesis using vi
      by (simp add: plua_geti_run sh split: prod.splits sum.splits)
  qed
  have gettable: "returns_shape xs [1] (plua_gettable env s idx)"
    if vi: "valid_index s idx" and st: "stack s = xs @ [k]"
  proof -
    obtain v where "index2addr s idx = Some v" using valid_index_readable vi by blast
    then show ?thesis using vi st
      by (simp add: plua_gettable_run[where xs=xs and k=k] sh split: prod.splits sum.splits)
  qed
  have newthread: "returns_shape (stack s) [1] (plua_newthread env s out)" if "out \<noteq> 0"
    using that by (simp add: plua_newthread_run sh split: prod.splits sum.splits)
  have newuserdata: "returns_shape (stack s) [1] (plua_newuserdata env s sz out)" if "out \<noteq> 0"
    using that by (simp add: plua_newuserdata_run sh split: prod.splits sum.splits)
  have nxt: "returns_shape xs [0, 2] (plua_next env s idx out)"
    if "valid_index s idx" "index2addr s idx = Some (Table t)" "stack s = xs @ [k]" "out \<noteq> 0"
    using that
    by (simp add: plua_next_run[where t=t and xs=xs and k=k] sh
        split: prod.splits sum.splits option.splits)
  have pushcclosure: "returns_shape ys [1] (plua_pushcclosure env s fn n)"
    if "stack s = ys @ ups" "int (length ups) = n" "n \<le> MAXUPVAL"
    using that
    by (simp add: plua_pushcclosure_run[where xs=ys and ups=ups] sh split: prod.splits sum.splits)
  have pushlstring: "returns_shape (stack s) [1] (plua_pushlstring env s p len)"
    by (simp add: plua_pushlstring_run sh split: prod.splits sum.splits)
  have pushstring: "returns_shape (stack s) [1] (plua_pushstring env s p)"
    by (simp add: plua_pushstring_run sh split: prod.splits sum.splits)
  have rawset: "returns_shape zs [0] (plua_rawset env s idx)"
    if "index2addr s idx = Some (Table t)" "stack s = zs @ [k', v']"
    using that
    by (simp add: plua_rawset_run[where xs=zs and k=k' and v=v'] sh split: prod.splits sum.splits)
  have settable: "returns_shape zs [0] (plua_settable env s idx)"
    if "index2addr s idx = Some w" "stack s = zs @ [k', v']"
    using that
    by (simp add: plua_settable_run[where xs=zs and k=k' and v=v'] sh split: prod.splits sum.splits)
  have tostring: "inplace_shape s idx (plua_tostring env s idx out)"
    if vi: "valid_index s idx" and nz: "out \<noteq> 0"
  proof -
    obtain v where "index2addr s idx = Some v" using valid_index_readable vi by blast
    then show ?thesis using vi nz
      by (auto simp: plua_tostring_run inplace_shape_def replaced_def
          split: prod.splits sum.splits option.splits)
  qed
  show ?thesis
    using newtable len geti gettable newthread newuserdata nxt pushcclosure pushlstring pushstring
      rawset settable tostring
    by blast
qed


theorem protected_operations_two_shapes_witness:
  "valid_index (state0 [Table 0, Str ''k'', Str ''v'']) 1 \<and> (7::nat) \<noteq> 0
   \<and> stack (state0 [Table 0, Str ''k'', Str ''v'']) = [Table 0, Str ''k''] @ [Str ''v'']
   \<and> index2addr (state0 [Table 0, Str ''k'', Str ''v'']) 1 = Some (Table 0)
   \<and> stack (state0 [Table 0, Str ''k'', Str ''v'']) = [Table 0] @ [Str ''k'', Str ''v'']
   \<and> int (length [Str ''k'', Str ''v'']) = 2 \<and> (2::int) \<le> MAXUPVAL
   \<and> returns_shape [Table 0, Str ''k'', Str ''v''] [0]
         (pluaL_len stub_engine (state0 [Table 0, Str ''k'', Str ''v'']) 1 7)
   \<and> returns_shape [Table 0, Str ''k'', Str ''v''] [1]
         (plua_geti stub_engine (state0 [Table 0, Str ''k'', Str ''v'']) 1 5)
   \<and> returns_shape [Table 0, Str ''k''] [1]
         (plua_gettable stub_engine (state0 [Table 0, Str ''k'', Str ''v'']) 1)
   \<and> returns_shape [Table 0, Str ''k'', Str ''v''] [1]
         (plua_newthread stub_engine (state0 [Table 0, Str ''k'', Str ''v'']) 7)
   \<and> returns_shape [Table 0, Str ''k'', Str ''v''] [1]
         (plua_newuserdata stub_engine (state0 [Table 0, Str ''k'', Str ''v'']) 16 7)
   \<and> returns_shape [Table 0, Str ''k''] [0, 2]
         (plua_next stub_engine (state0 [Table 0, Str ''k'', Str ''v'']) 1 7)
   \<and> returns_shape [Table 0] [1]
         (plua_pushcclosure stub_engine (state0 [Table 0, Str ''k'', Str ''v'']) (Extern 9) 2)
   \<and> returns_shape [Table 0] [0]
         (plua_rawset stub_engine (state0 [Table 0, Str ''k'', Str ''v'']) 1)
   \<and> returns_shape [Table 0] [0]
         (plua_settable stub_engine (state0 [Table 0, Str ''k'', Str ''v'']) 1)
   \<and> inplace_shape (state0 [Table 0, Str ''k'', Str ''v'']) 1
         (plua_tostring stub_engine (state0 [Table 0, Str ''k'', Str ''v'']) 1 7)
   \<and> plua_gettable stub_engine (state0 [Table 0, Str ''k'', Str ''v'']) 1
       = Done LUA_OK ((state0 [Table 0, Str ''k'', Integer 1])\<lparr>addressed := [1]\<rparr>)
   \<and> plua_gettable stub_engine (state0 [Table 0, Str ''k'', Str ''v'']) (- 2)
       = Done 2 ((state0 [Table 0, Str ''k'', Str ''attempt to index''])\<lparr>addressed := [2]\<rparr>)"
proof -
  have h: "valid_index (state0 [Table 0, Str ''k'', Str ''v'']) 1" "(7::nat) \<noteq> 0"
    "stack (state0 [Table 0, Str ''k'', Str ''v'']) = [Table 0, Str ''k''] @ [Str ''v'']"
    "index2addr (state0 [Table 0, Str ''k'', Str ''v'']) 1 = Some (Table 0)"
    "stack (state0 [Table 0, Str ''k'', Str ''v'']) = [Table 0] @ [Str ''k'', Str ''v'']"
    "int (length [Str ''k'', Str ''v'']) = 2" "(2::int) \<le> MAXUPVAL"
    by (simp_all add: valid_index_def stackpos_def index2addr_def lua_gettop_def state0_def const_defs)
  have v2: "valid_index (state0 [Table 0, Str ''k'', Str ''v'']) (- 2)"
    "index2addr (state0 [Table 0, Str ''k'', Str ''v'']) (- 2) = Some (Str ''k'')"
    by (simp_all add: valid_index_def stackpos_def index2addr_def lua_gettop_def state0_def const_defs)
  have e1: "plua_gettable stub_engine (state0 [Table 0, Str ''k'', Str ''v'']) 1
       = Done LUA_OK ((state0 [Table 0, Str ''k'', Integer 1])\<lparr>addressed := [1]\<rparr>)"
    by (simp add: plua_gettable_run[OF h(1) h(4) h(3)])
       (simp add: stub_engine_def state0_def lua_absindex_def)
  have e2: "plua_gettable stub_engine (state0 [Table 0, Str ''k'', Str ''v'']) (- 2)
       = Done 2 ((state0 [Table 0, Str ''k'', Str ''attempt to index''])\<lparr>addressed := [2]\<rparr>)"
    by (simp add: plua_gettable_run[OF v2 h(3)])
       (simp add: stub_engine_def state0_def lua_absindex_def lua_gettop_def const_defs)
  have s: "stack (state0 [Table 0, Str ''k'', Str ''v'']) = [Table 0, Str ''k'', Str ''v'']"
    by (simp add: state0_def)
  show ?thesis
    using h e1 e2 protected_operations_two_shapes[where s="state0 [Table 0, Str ''k'', Str ''v'']"
        and idx=1 and out=7 and env=stub_engine and sz=16 and t=0 and xs="[Table 0, Str ''k'']"
        and k="Str ''v''" and i=5 and ys="[Table 0]" and ups="[Str ''k'', Str ''v'']" and n=2
        and fn="Extern 9" and zs="[Table 0]" and k'="Str ''k''" and v'="Str ''v''" and w="Table 0"]
    unfolding s
    by blast
qed

section \<open>The protected operations: caller-supplied indices\<close>

lemma valid_index_abs:
  assumes "valid_index s idx"
  shows "valid_index s (lua_absindex s idx)"
    "index2addr s (lua_absindex s idx) = index2addr s idx"
    "lua_absindex s (lua_absindex s idx) = lua_absindex s idx"
    "0 < lua_absindex s idx \<or> ispseudo (lua_absindex s idx)"
    "stackpos s (lua_absindex s idx) = stackpos s idx"
  using assms
  by (auto simp: valid_index_def index2addr_def lua_absindex_def stackpos_def lua_gettop_def
      const_defs Let_def split: if_splits)

lemma replaced_abs:
  assumes "valid_index s idx"
  shows "replaced s (lua_absindex s idx) v = replaced s idx v"
proof (cases "stackpos s idx")
  case None
  then have "lua_absindex s idx = idx"
    using assms by (auto simp: valid_index_def lua_absindex_def const_defs)
  then show ?thesis by simp
next
  case (Some p)
  then show ?thesis
    using valid_index_abs(5)[OF assms] by (simp add: replaced_def)
qed

lemma forget_Done [simp]: "forget (Done st s) = Done st (s\<lparr>addressed := []\<rparr>)"
  by (simp add: forget_def)

lemma handed_Done [simp]: "handed s (Done st s') = drop (length (addressed s)) (addressed s')"
  by (simp add: handed_def)

text \<open>
  Claim C8, as stated, fails for raw-set and generic set: they do not convert the caller's
  index. Called with the relative index \<open>-3\<close> on a stack of three values, each hands \<open>-3\<close>
  itself to \<^verbatim>\<open>lua_pushvalue\<close>, not its absolute form \<open>1\<close>.
\<close>

theorem rawset_hands_relative_index_counterexample:
  "handed (state0 [Table 0, Str ''k'', Str ''v''])
     (plua_rawset stub_engine (state0 [Table 0, Str ''k'', Str ''v'']) (- 3)) = [- 3]
   \<and> handed (state0 [Table 0, Str ''k'', Str ''v''])
     (plua_settable stub_engine (state0 [Table 0, Str ''k'', Str ''v'']) (- 3)) = [- 3]
   \<and> lua_absindex (state0 [Table 0, Str ''k'', Str ''v'']) (- 3) = 1
   \<and> \<not> (0 < (- 3::int) \<or> ispseudo (- 3))"
proof -
  have h: "index2addr (state0 [Table 0, Str ''k'', Str ''v'']) (- 3) = Some (Table 0)"
    "stack (state0 [Table 0, Str ''k'', Str ''v'']) = [Table 0] @ [Str ''k'', Str ''v'']"
    by (simp_all add: index2addr_def lua_gettop_def state0_def const_defs)
  show ?thesis
    by (simp add: plua_rawset_run[OF h] plua_settable_run[OF h])
       (simp add: stub_engine_def state0_def lua_absindex_def lua_gettop_def const_defs)
qed

text \<open>
  Claim C8, amended. For a valid index, the length query, the indexed get, the generic get
  and the string coercion convert the index to absolute form before their first push: every
  index they hand to the engine afterwards is that absolute form (positive or a
  pseudo-index). Raw-set and generic set do not convert the index: they hand it to the
  engine as supplied, once, in the wrapper's first stack operation, before anything is
  pushed. For all six the index denotes the slot it denoted at entry: the call with the
  index as supplied and the call with its absolute form have the same status and leave the
  same stack, heap and memory.
\<close>

theorem index_denotes_entry_slot:
  assumes vi: "valid_index s idx"
  shows "(0 < lua_absindex s idx \<or> ispseudo (lua_absindex s idx))
   \<and> (out \<noteq> 0 \<longrightarrow>
        handed s (pluaL_len env s idx out) = [lua_absindex s idx]
        \<and> forget (pluaL_len env s idx out) = forget (pluaL_len env s (lua_absindex s idx) out))
   \<and> (handed s (plua_geti env s idx i) = [lua_absindex s idx]
        \<and> forget (plua_geti env s idx i) = forget (plua_geti env s (lua_absindex s idx) i))
   \<and> (stack s = xs @ [k] \<longrightarrow>
        handed s (plua_gettable env s idx) = [lua_absindex s idx]
        \<and> forget (plua_gettable env s idx) = forget (plua_gettable env s (lua_absindex s idx)))
   \<and> (out \<noteq> 0 \<longrightarrow>
        set (handed s (plua_tostring env s idx out)) = {lua_absindex s idx}
        \<and> forget (plua_tostring env s idx out) = forget (plua_tostring env s (lua_absindex s idx) out))
   \<and> (index2addr s idx = Some (Table t) \<and> stack s = zs @ [k', v'] \<longrightarrow>
        handed s (plua_rawset env s idx) = [idx]
        \<and> forget (plua_rawset env s idx) = forget (plua_rawset env s (lua_absindex s idx)))
   \<and> (stack s = zs @ [k', v'] \<longrightarrow>
        handed s (plua_settable env s idx) = [idx]
        \<and> forget (plua_settable env s idx) = forget (plua_settable env s (lua_absindex s idx)))"
proof -
  obtain w where w: "index2addr s idx = Some w" using valid_index_readable vi by blast
  note a = valid_index_abs[OF vi]
  have wa: "index2addr s (lua_absindex s idx) = Some w" using a(2) w by simp
  have len: "handed s (pluaL_len env s idx out) = [lua_absindex s idx]
        \<and> forget (pluaL_len env s idx out) = forget (pluaL_len env s (lua_absindex s idx) out)"
    if nz: "out \<noteq> 0"
    by (simp add: pluaL_len_run[OF vi w nz] pluaL_len_run[OF a(1) wa nz] a(3)
        split: prod.splits sum.splits)
  have geti: "handed s (plua_geti env s idx i) = [lua_absindex s idx]
        \<and> forget (plua_geti env s idx i) = forget (plua_geti env s (lua_absindex s idx) i)"
    by (simp add: plua_geti_run[OF vi w] plua_geti_run[OF a(1) wa] a(3)
        split: prod.splits sum.splits)
  have gettable: "handed s (plua_gettable env s idx) = [lua_absindex s idx]
        \<and> forget (plua_gettable env s idx) = forget (plua_gettable env s (lua_absindex s idx))"
    if st: "stack s = xs @ [k]"
    by (simp add: plua_gettable_run[OF vi w st] plua_gettable_run[OF a(1) wa st] a(3)
        split: prod.splits sum.splits)
  have tostring: "set (handed s (plua_tostring env s idx out)) = {lua_absindex s idx}
        \<and> forget (plua_tostring env s idx out) = forget (plua_tostring env s (lua_absindex s idx) out)"
    if nz: "out \<noteq> 0"
    by (simp add: plua_tostring_run[OF vi w nz] plua_tostring_run[OF a(1) wa nz] a(3)
        replaced_abs[OF vi] split: prod.splits sum.splits)
  have rawset: "handed s (plua_rawset env s idx) = [idx]
        \<and> forget (plua_rawset env s idx) = forget (plua_rawset env s (lua_absindex s idx))"
    if t: "index2addr s idx = Some (Table t)" and st: "stack s = zs @ [k', v']"
  proof -
    have ta: "index2addr s (lua_absindex s idx) = Some (Table t)" using a(2) t by simp
    show ?thesis
      by (simp add: plua_rawset_run[OF t st] plua_rawset_run[OF ta st]
          split: prod.splits sum.splits)
  qed
  have settable: "handed s (plua_settable env s idx) = [idx]
        \<and> forget (plua_settable env s idx) = forget (plua_settable env s (lua_absindex s idx))"
    if st: "stack s = zs @ [k', v']"
    by (simp add: plua_settable_run[OF w st] plua_settable_run[OF wa st]
        split: prod.splits sum.splits)
  show ?thesis
    using a(4) len geti gettable tostring rawset settable by blast
qed


theorem index_denotes_entry_slot_witness:
  "valid_index (state0 [Table 0, Str ''k'', Str ''v'']) (- 3) \<and> (7::nat) \<noteq> 0
   \<and> stack (state0 [Table 0, Str ''k'', Str ''v'']) = [Table 0, Str ''k''] @ [Str ''v'']
   \<and> index2addr (state0 [Table 0, Str ''k'', Str ''v'']) (- 3) = Some (Table 0)
   \<and> stack (state0 [Table 0, Str ''k'', Str ''v'']) = [Table 0] @ [Str ''k'', Str ''v'']
   \<and> lua_absindex (state0 [Table 0, Str ''k'', Str ''v'']) (- 3) = 1
   \<and> handed (state0 [Table 0, Str ''k'', Str ''v''])
        (pluaL_len stub_engine (state0 [Table 0, Str ''k'', Str ''v'']) (- 3) 7) = [1]
   \<and> forget (pluaL_len stub_engine (state0 [Table 0, Str ''k'', Str ''v'']) (- 3) 7)
       = forget (pluaL_len stub_engine (state0 [Table 0, Str ''k'', Str ''v'']) 1 7)
   \<and> handed (state0 [Table 0, Str ''k'', Str ''v''])
        (plua_gettable stub_engine (state0 [Table 0, Str ''k'', Str ''v'']) (- 3)) = [1]
   \<and> forget (plua_gettable stub_engine (state0 [Table 0, Str ''k'', Str ''v'']) (- 3))
       = forget (plua_gettable stub_engine (state0 [Table 0, Str ''k'', Str ''v'']) 1)
   \<and> set (handed (state0 [Table 0, Str ''k'', Str ''v''])
        (plua_tostring stub_engine (state0 [Table 0, Str ''k'', Str ''v'']) (- 3) 7)) = {1}
   \<and> forget (plua_tostring stub_engine (state0 [Table 0, Str ''k'', Str ''v'']) (- 3) 7)
       = forget (plua_tostring stub_engine (state0 [Table 0, Str ''k'', Str ''v'']) 1 7)
   \<and> handed (state0 [Table 0, Str ''k'', Str ''v''])
        (plua_rawset stub_engine (state0 [Table 0, Str ''k'', Str ''v'']) (- 3)) = [- 3]
   \<and> forget (plua_rawset stub_engine (state0 [Table 0, Str ''k'', Str ''v'']) (- 3))
       = forget (plua_rawset stub_engine (state0 [Table 0, Str ''k'', Str ''v'']) 1)
   \<and> handed (state0 [Table 0, Str ''k'', Str ''v''])
        (plua_settable stub_engine (state0 [Table 0, Str ''k'', Str ''v'']) (- 3)) = [- 3]
   \<and> forget (plua_settable stub_engine (state0 [Table 0, Str ''k'', Str ''v'']) (- 3))
       = forget (plua_settable stub_engine (state0 [Table 0, Str ''k'', Str ''v'']) 1)"
proof -
  have h: "valid_index (state0 [Table 0, Str ''k'', Str ''v'']) (- 3)" "(7::nat) \<noteq> 0"
    "stack (state0 [Table 0, Str ''k'', Str ''v'']) = [Table 0, Str ''k''] @ [Str ''v'']"
    "index2addr (state0 [Table 0, Str ''k'', Str ''v'']) (- 3) = Some (Table 0)"
    "stack (state0 [Table 0, Str ''k'', Str ''v'']) = [Table 0] @ [Str ''k'', Str ''v'']"
    by (simp_all add: valid_index_def stackpos_def index2addr_def lua_gettop_def state0_def const_defs)
  have a: "lua_absindex (state0 [Table 0, Str ''k'', Str ''v'']) (- 3) = 1"
    by (simp add: lua_absindex_def lua_gettop_def state0_def const_defs)
  show ?thesis
    using h a index_denotes_entry_slot[OF h(1), where out=7 and env=stub_engine
        and xs="[Table 0, Str ''k'']" and k="Str ''v''" and t=0 and zs="[Table 0]"
        and k'="Str ''k''" and v'="Str ''v''"]
    unfolding a
    by blast
qed

section \<open>The iteration step\<close>











end
